theory Spec2Isabelle
  imports Complex_Main "HOL-Library.Multiset" "HOL-Library.Product_Lexorder"
    "HOL-Library.Word"
begin

text \<open>
  The Streamlit script \<^verbatim>\<open>fpl_streamlit_app.py\<close>: the function \<^verbatim>\<open>load_fpl_data\<close>
  (lines 22 to 48) and the values the page script computes from the frame it returns
  (the list of years, the rows and the totals of the selected year, the annual table;
  lines 58 to 74, 82 and 161 to 169). The widgets and the charts are left out. The
  script calls requests, pandas and Python's built-ins; what these do is written into
  the definitions below, each with the call it stands for.
\<close>

section \<open>Numbers of a float64 column\<close>

text \<open>
  The numeric columns of the data frame hold IEEE-754 doubles. A double is modelled as
  a real number or one of the three special values; rounding, overflow of a finite
  quotient or sum, and the sign of zero are not modelled. The division and the addition
  below are the IEEE operations on these values: a finite number divided by zero is an
  infinity (NaN for 0/0), and NaN is absorbing. Every statement below about a float64
  quotient, sum or mean is a statement about this idealised arithmetic: the script's
  float results agree with it up to rounding, and a float sum of the script can depend
  on the order of the rows in its last digits. Integer columns are not idealised: their
  cells are 64-bit words and their sums wrap (see \<open>column_sum\<close>).
\<close>

datatype float64 = Fin real | PInf | NInf | NaN

fun truediv :: "float64 \<Rightarrow> float64 \<Rightarrow> float64" where
  "truediv NaN y = NaN"
| "truediv x NaN = NaN"
| "truediv (Fin x) (Fin y) =
     (if y \<noteq> 0 then Fin (x / y)
      else if 0 < x then PInf else if x < 0 then NInf else NaN)"
| "truediv (Fin x) PInf = Fin 0"
| "truediv (Fin x) NInf = Fin 0"
| "truediv PInf (Fin y) = (if y < 0 then NInf else PInf)"
| "truediv NInf (Fin y) = (if y < 0 then PInf else NInf)"
| "truediv PInf PInf = NaN"
| "truediv PInf NInf = NaN"
| "truediv NInf PInf = NaN"
| "truediv NInf NInf = NaN"

fun fadd :: "float64 \<Rightarrow> float64 \<Rightarrow> float64" where
  "fadd NaN y = NaN"
| "fadd x NaN = NaN"
| "fadd (Fin x) (Fin y) = Fin (x + y)"
| "fadd PInf NInf = NaN"
| "fadd NInf PInf = NaN"
| "fadd PInf y = PInf"
| "fadd x PInf = PInf"
| "fadd NInf y = NInf"
| "fadd x NInf = NInf"

definition is_inf :: "float64 \<Rightarrow> bool" where
  "is_inf x = (x = PInf \<or> x = NInf)"

text \<open>
  \<^verbatim>\<open>Series.sum()\<close> and \<^verbatim>\<open>Series.mean()\<close> of a float64 column with pandas'
  default \<^verbatim>\<open>skipna=True\<close>: NaN entries are left out, every other entry (an infinity
  too) is added up; the sum of nothing is 0 and the mean of nothing is NaN. The additions
  are the idealised ones (no rounding).
\<close>

definition pd_sum :: "float64 list \<Rightarrow> float64" where
  "pd_sum xs = fold fadd [x \<leftarrow> xs. x \<noteq> NaN] (Fin 0)"

definition pd_mean :: "float64 list \<Rightarrow> float64" where
  "pd_mean xs =
     (let count = length [x \<leftarrow> xs. x \<noteq> NaN]
      in if 0 < count then truediv (pd_sum xs) (Fin (real count)) else NaN)"

section \<open>Timestamps\<close>

text \<open>
  A pandas Timestamp, by its calendar fields; \<open>nanos\<close> is the time of day. pandas
  orders timestamps chronologically, which is the lexicographic order of the fields.
\<close>

datatype month = January | February | March | April | May | June
  | July | August | September | October | November | December

fun month_number :: "month \<Rightarrow> nat" where
  "month_number January = 1"
| "month_number February = 2"
| "month_number March = 3"
| "month_number April = 4"
| "month_number May = 5"
| "month_number June = 6"
| "month_number July = 7"
| "month_number August = 8"
| "month_number September = 9"
| "month_number October = 10"
| "month_number November = 11"
| "month_number December = 12"

record timestamp =
  year :: int
  month :: month
  day :: nat
  nanos :: nat

definition chrono :: "timestamp \<Rightarrow> int \<times> nat \<times> nat \<times> nat" where
  "chrono t = (year t, month_number (month t), day t, nanos t)"

text \<open>
  \<^verbatim>\<open>strftime('%B')\<close> gives the full month name of the process's \<^verbatim>\<open>LC_TIME\<close>
  locale. The locale is an input of the program: a table from months to names. Python
  starts in the C locale, whose names are the English ones.
\<close>

type_synonym lc_time = "month \<Rightarrow> string"

fun C_LC_TIME :: lc_time where
  "C_LC_TIME January = ''January''"
| "C_LC_TIME February = ''February''"
| "C_LC_TIME March = ''March''"
| "C_LC_TIME April = ''April''"
| "C_LC_TIME May = ''May''"
| "C_LC_TIME June = ''June''"
| "C_LC_TIME July = ''July''"
| "C_LC_TIME August = ''August''"
| "C_LC_TIME September = ''September''"
| "C_LC_TIME October = ''October''"
| "C_LC_TIME November = ''November''"
| "C_LC_TIME December = ''December''"

fun de_DE_LC_TIME :: lc_time where
  "de_DE_LC_TIME January = ''Januar''"
| "de_DE_LC_TIME February = ''Februar''"
| "de_DE_LC_TIME March = ''Maerz''"
| "de_DE_LC_TIME April = ''April''"
| "de_DE_LC_TIME May = ''Mai''"
| "de_DE_LC_TIME June = ''Juni''"
| "de_DE_LC_TIME July = ''Juli''"
| "de_DE_LC_TIME August = ''August''"
| "de_DE_LC_TIME September = ''September''"
| "de_DE_LC_TIME October = ''Oktober''"
| "de_DE_LC_TIME November = ''November''"
| "de_DE_LC_TIME December = ''Dezember''"

definition strftime_B :: "lc_time \<Rightarrow> timestamp \<Rightarrow> string" where
  "strftime_B lc t = lc (month t)"

text \<open>The month table the script passes to every chart as \<^verbatim>\<open>categoryarray\<close>.\<close>

definition categoryarray :: "string list" where
  "categoryarray =
     [''January'', ''February'', ''March'', ''April'', ''May'', ''June'',
      ''July'', ''August'', ''September'', ''October'', ''November'', ''December'']"

section \<open>The fetched table\<close>

text \<open>
  The input of \<^verbatim>\<open>load_fpl_data\<close> is what \<^verbatim>\<open>requests.get\<close> and
  \<^verbatim>\<open>pd.read_csv\<close> make of the URL: no reply at all, or a reply with a status and
  a body that \<^verbatim>\<open>read_csv\<close> rejects or reads as a table. A table is its header and
  its rows. Each row gives the three fields the script reads, as the library classifies
  them:
  \<^item> a field of the Date column is empty (\<^verbatim>\<open>to_datetime\<close> makes it NaT), text that
    \<^verbatim>\<open>to_datetime\<close> converts to a timestamp, or text on which it raises;
  \<^item> a field of a numeric column is an integer literal that \<^verbatim>\<open>read_csv\<close> reads as
    an int64, a literal that it reads as a float64, a missing value (the float NaN), or
    text that it keeps as text. A column whose fields are all integers has dtype int64; a
    column with numbers only has dtype float64, its integers standing for the floats of
    the same value; a column with a text field holds strings.

  A field of a column that the header does not name is never read.
\<close>

datatype date_cell = EmptyDate | GoodDate timestamp | BadDate string

datatype num_cell = Int64 "64 word" | Number float64 | Str string

fun float_of :: "num_cell \<Rightarrow> float64" where
  "float_of (Int64 w) = Fin (real_of_int (sint w))"
| "float_of (Number x) = x"
| "float_of (Str s) = NaN"

fun is_text :: "num_cell \<Rightarrow> bool" where
  "is_text (Int64 w) = False"
| "is_text (Number x) = False"
| "is_text (Str s) = True"

fun is_int :: "num_cell \<Rightarrow> bool" where
  "is_int (Int64 w) = True"
| "is_int (Number x) = False"
| "is_int (Str s) = False"

text \<open>The integer of a cell of an int64 column; it is not used on other cells.\<close>

fun int64_of :: "num_cell \<Rightarrow> 64 word" where
  "int64_of (Int64 w) = w"
| "int64_of (Number x) = 0"
| "int64_of (Str s) = 0"

definition has_text :: "num_cell list \<Rightarrow> bool" where
  "has_text cs = (\<exists>c \<in> set cs. is_text c)"

definition all_int :: "num_cell list \<Rightarrow> bool" where
  "all_int cs = (\<forall>c \<in> set cs. is_int c)"

text \<open>
  What \<^verbatim>\<open>read_csv\<close> makes of a field whose text is no number literal: with the
  default \<^verbatim>\<open>na_values\<close> and \<^verbatim>\<open>keep_default_na\<close>, the empty field and the
  markers of the list below are read as NaN; any other text is kept.
\<close>

definition na_values :: "string list" where
  "na_values =
     ['''', ''#N/A'', ''#N/A N/A'', ''#NA'', ''-1.#IND'', ''-1.#QNAN'', ''-NaN'', ''-nan'',
      ''1.#IND'', ''1.#QNAN'', ''<NA>'', ''N/A'', ''NA'', ''NULL'', ''NaN'', ''None'',
      ''n/a'', ''nan'', ''null'']"

definition read_text :: "string \<Rightarrow> num_cell" where
  "read_text s = (if s \<in> set na_values then Number NaN else Str s)"

record csv_row =
  Date_field :: date_cell
  kWh_field :: num_cell
  Total_field :: num_cell

record csv =
  header :: "string list"
  csv_rows :: "csv_row list"

datatype body = Unreadable | Table csv

datatype response = NoReply | Reply nat body

datatype exn =
  RequestException | HTTPError nat | ParserError
  | KeyError string | ValueError string | TypeError

section \<open>load\_fpl\_data\<close>

text \<open>One row of the data frame that \<^verbatim>\<open>load_fpl_data\<close> returns.\<close>

record bill =
  Date :: "timestamp option"
  kWh :: num_cell
  Total :: num_cell
  Unit_Cost :: float64
  Year :: "int option"
  Month :: "nat option"
  Month_Name :: "string option"

text \<open>\<^verbatim>\<open>df[name]\<close>: the column, or KeyError when the header lacks the name.\<close>

definition getitem :: "csv \<Rightarrow> string \<Rightarrow> (csv_row \<Rightarrow> 'a) \<Rightarrow> exn + 'a list" where
  "getitem t name field =
     (if name \<in> set (header t) then Inr (map field (csv_rows t)) else Inl (KeyError name))"

text \<open>\<^verbatim>\<open>pd.to_datetime\<close> (errors='raise'): ValueError at the first field it cannot
  convert; an empty field becomes NaT.\<close>

fun to_datetime :: "date_cell list \<Rightarrow> exn + timestamp option list" where
  "to_datetime [] = Inr []"
| "to_datetime (BadDate s # cs) = Inl (ValueError s)"
| "to_datetime (EmptyDate # cs) =
     (case to_datetime cs of Inl e \<Rightarrow> Inl e | Inr ts \<Rightarrow> Inr (None # ts))"
| "to_datetime (GoodDate t # cs) =
     (case to_datetime cs of Inl e \<Rightarrow> Inl e | Inr ts \<Rightarrow> Inr (Some t # ts))"

text \<open>
  \<^verbatim>\<open>df['Total'] / df['kWh']\<close>. Two numeric columns are divided element by
  element, by true division: the result is a float64 column, also for two int64
  columns. A column that holds text is a column of strings, and dividing it raises
  TypeError.
\<close>

definition series_truediv :: "num_cell list \<Rightarrow> num_cell list \<Rightarrow> exn + float64 list" where
  "series_truediv xs ys =
     (if has_text xs \<or> has_text ys then Inl TypeError
      else Inr (map (\<lambda>(x, y). truediv (float_of x) (float_of y)) (zip xs ys)))"

definition make_bill ::
  "lc_time \<Rightarrow> timestamp option \<times> num_cell \<times> num_cell \<times> float64 \<Rightarrow> bill" where
  "make_bill lc = (\<lambda>(d, k, t, u).
     \<lparr>Date = d, kWh = k, Total = t, Unit_Cost = u,
      Year = map_option year d,
      Month = map_option (\<lambda>ts. month_number (month ts)) d,
      Month_Name = map_option (strftime_B lc) d\<rparr>)"

text \<open>A statement that may raise, followed by the rest of the block.\<close>

definition and_then :: "exn + 'a \<Rightarrow> ('a \<Rightarrow> exn + 'b) \<Rightarrow> exn + 'b" where
  "and_then r rest = (case r of Inl e \<Rightarrow> Inl e | Inr v \<Rightarrow> rest v)"

text \<open>
  Lines 27 to 31: \<^verbatim>\<open>requests.get\<close> raises when there is no reply,
  \<^verbatim>\<open>raise_for_status\<close> raises for a status from 400 to 599, and
  \<^verbatim>\<open>pd.read_csv\<close> raises on a body it cannot read.
\<close>

definition fetch_csv :: "response \<Rightarrow> exn + csv" where
  "fetch_csv response =
     (case response of
        NoReply \<Rightarrow> Inl RequestException
      | Reply status content \<Rightarrow>
          (if 400 \<le> status \<and> status < 600 then Inl (HTTPError status)
           else (case content of Unreadable \<Rightarrow> Inl ParserError | Table t \<Rightarrow> Inr t)))"

text \<open>The body of the \<^verbatim>\<open>try\<close> block, lines 26 to 44: an exception or the frame.\<close>

definition try_load :: "lc_time \<Rightarrow> response \<Rightarrow> exn + bill list" where
  "try_load lc response =
     and_then (fetch_csv response) (\<lambda>t.
     and_then (getitem t ''Date'' Date_field) (\<lambda>date_text.
     and_then (to_datetime date_text) (\<lambda>dates.
     and_then (getitem t ''Total'' Total_field) (\<lambda>total_col.
     and_then (getitem t ''kWh'' kWh_field) (\<lambda>kwh_col.
     and_then (series_truediv total_col kwh_col) (\<lambda>unit_cost.
       Inr (map (make_bill lc) (zip dates (zip kwh_col (zip total_col unit_cost))))))))))"

text \<open>
  \<^verbatim>\<open>load_fpl_data\<close>: the handler \<^verbatim>\<open>except Exception\<close> catches whatever the body
  raises, shows a message on the page and returns None.
\<close>

definition load_fpl_data :: "lc_time \<Rightarrow> response \<Rightarrow> bill list option" where
  "load_fpl_data lc response =
     (case try_load lc response of Inl e \<Rightarrow> None | Inr df \<Rightarrow> Some df)"

section \<open>The page script\<close>

text \<open>
  Line 58, \<^verbatim>\<open>sorted(df['Year'].unique())\<close>. The Year column holds NaN (here None)
  in the rows whose Date is NaT. \<^verbatim>\<open>unique\<close> keeps the first occurrence of every
  value, NaN once. Python's \<^verbatim>\<open>sorted\<close> compares with \<^verbatim>\<open><\<close>, which is false
  whenever an operand is NaN; it is modelled as an insertion sort from left to right.
  On a list without NaN every sorting algorithm returns the same list. On a list with
  NaN the place of the elements depends on the comparisons the algorithm makes, and
  the results below rely only on the returned list being a rearrangement of its input.
\<close>

definition unique :: "'a list \<Rightarrow> 'a list" where
  "unique xs = rev (remdups (rev xs))"

definition py_lt :: "int option \<Rightarrow> int option \<Rightarrow> bool" where
  "py_lt a b = (case (a, b) of (Some x, Some y) \<Rightarrow> x < y | _ \<Rightarrow> False)"

definition py_le :: "int option \<Rightarrow> int option \<Rightarrow> bool" where
  "py_le a b = (case (a, b) of (Some x, Some y) \<Rightarrow> x \<le> y | _ \<Rightarrow> False)"

definition py_eq :: "int option \<Rightarrow> int option \<Rightarrow> bool" where
  "py_eq a b = (case (a, b) of (Some x, Some y) \<Rightarrow> x = y | _ \<Rightarrow> False)"

fun py_insort :: "int option \<Rightarrow> int option list \<Rightarrow> int option list" where
  "py_insort x [] = [x]"
| "py_insort x (y # ys) = (if py_lt x y then x # y # ys else y # py_insort x ys)"

definition py_sorted :: "int option list \<Rightarrow> int option list" where
  "py_sorted xs = foldl (\<lambda>acc x. py_insort x acc) [] xs"

definition available_years :: "bill list \<Rightarrow> int option list" where
  "available_years df = py_sorted (unique (map Year df))"

text \<open>
  Lines 66 and 67: the rows whose Year equals the selected year (no row when the
  selected entry is NaN), sorted by Date with NaT last. The order pandas gives to rows
  of equal Date is not fixed by its default sorting algorithm; the model keeps them in
  their input order.
\<close>

definition date_key :: "bill \<Rightarrow> int \<times> nat \<times> nat \<times> nat" where
  "date_key r = (case Date r of None \<Rightarrow> (0, 0, 0, 0) | Some t \<Rightarrow> chrono t)"

definition sort_values_Date :: "bill list \<Rightarrow> bill list" where
  "sort_values_Date rs =
     sort_key date_key [r \<leftarrow> rs. Date r \<noteq> None] @ [r \<leftarrow> rs. Date r = None]"

definition year_df :: "bill list \<Rightarrow> int option \<Rightarrow> bill list" where
  "year_df df selected_year =
     sort_values_Date [r \<leftarrow> df. py_eq (Year r) selected_year]"

text \<open>
  Lines 71 to 74. \<open>column_sum column chosen\<close> is the sum of the cells \<open>chosen\<close> among
  those of the numeric column \<open>column\<close>, in the dtype of the column: an int64 column is
  added in 64-bit integers, which wrap around (the addition of \<open>64 word\<close>), and gives
  an integer; a float64 column is added by \<open>pd_sum\<close>. A column of strings has no numeric
  sum (pandas raises or returns text): \<open>series_sum\<close> is then None. Such a column is in
  no frame that \<^verbatim>\<open>load_fpl_data\<close> returns.
\<close>

definition column_sum :: "num_cell list \<Rightarrow> num_cell list \<Rightarrow> num_cell" where
  "column_sum column chosen =
     (if all_int column then Int64 (sum_list (map int64_of chosen))
      else Number (pd_sum (map float_of chosen)))"

definition series_sum :: "num_cell list \<Rightarrow> num_cell list \<Rightarrow> num_cell option" where
  "series_sum column chosen =
     (if has_text column then None else Some (column_sum column chosen))"

record year_summary =
  total_kwh :: "num_cell option"
  total_cost :: "num_cell option"
  avg_unit_cost :: float64
  num_bills :: nat

definition sidebar :: "bill list \<Rightarrow> int option \<Rightarrow> year_summary" where
  "sidebar df selected_year =
     (let rows_of_year = year_df df selected_year
      in \<lparr>total_kwh = series_sum (map kWh df) (map kWh rows_of_year),
          total_cost = series_sum (map Total df) (map Total rows_of_year),
          avg_unit_cost = pd_mean (map Unit_Cost rows_of_year),
          num_bills = length rows_of_year\<rparr>)"

text \<open>
  Lines 165 to 169, \<^verbatim>\<open>df.groupby('Year').agg(...).reset_index()\<close>: one row for
  every value of Year other than NaN, the keys ascending, with the sums and the mean of
  the group's rows, the sums in the dtype of the column. The result is None when a
  column holds strings (see \<open>series_sum\<close>).
\<close>

record annual_row =
  row_Year :: int
  row_kWh :: num_cell
  row_Total :: num_cell
  row_Unit_Cost :: float64

definition group_keys :: "bill list \<Rightarrow> int list" where
  "group_keys df = sort (remdups (concat (map (\<lambda>r. case Year r of None \<Rightarrow> [] | Some y \<Rightarrow> [y]) df)))"

definition group_of :: "bill list \<Rightarrow> int \<Rightarrow> bill list" where
  "group_of df y = [r \<leftarrow> df. Year r = Some y]"

definition group_row :: "bill list \<Rightarrow> int \<Rightarrow> annual_row" where
  "group_row df y =
     \<lparr>row_Year = y,
      row_kWh = column_sum (map kWh df) (map kWh (group_of df y)),
      row_Total = column_sum (map Total df) (map Total (group_of df y)),
      row_Unit_Cost = pd_mean (map Unit_Cost (group_of df y))\<rparr>"

definition annual_summary :: "bill list \<Rightarrow> annual_row list option" where
  "annual_summary df =
     (if has_text (map kWh df) \<or> has_text (map Total df) then None
      else Some (map (group_row df) (group_keys df)))"

text \<open>
  The comparison section is rendered (and \<^verbatim>\<open>annual_summary\<close> computed) only inside
  the two tests of lines 82 and 161.
\<close>

definition comparison_shown :: "bill list \<Rightarrow> int option \<Rightarrow> bool" where
  "comparison_shown df selected_year =
     (0 < length (year_df df selected_year) \<and> 1 < length (available_years df))"

definition comparison :: "bill list \<Rightarrow> int option \<Rightarrow> annual_row list option" where
  "comparison df selected_year =
     (if comparison_shown df selected_year then annual_summary df else None)"

section \<open>Notions used to state the results\<close>

text \<open>
  What \<^verbatim>\<open>to_datetime\<close> makes of one field; the row that \<^verbatim>\<open>load_fpl_data\<close>
  derives from one row of the table; the three columns the script reads; and the
  condition under which the division meets a string.
\<close>

fun timestamp_of :: "date_cell \<Rightarrow> timestamp option" where
  "timestamp_of EmptyDate = None"
| "timestamp_of (GoodDate t) = Some t"
| "timestamp_of (BadDate s) = None"

fun is_bad :: "date_cell \<Rightarrow> bool" where
  "is_bad (BadDate s) = True"
| "is_bad c = False"

definition derived_row :: "lc_time \<Rightarrow> csv_row \<Rightarrow> bill" where
  "derived_row lc r =
     make_bill lc (timestamp_of (Date_field r), kWh_field r, Total_field r,
       truediv (float_of (Total_field r)) (float_of (kWh_field r)))"

text \<open>The integer that a 64-bit signed addition leaves of the number \<open>n\<close>.\<close>

definition wrap_int64 :: "int \<Rightarrow> int" where
  "wrap_int64 n = (n + 2 ^ 63) mod 2 ^ 64 - 2 ^ 63"

definition required_columns :: "string list" where
  "required_columns = [''Date'', ''kWh'', ''Total'']"

definition text_division :: "csv \<Rightarrow> bool" where
  "text_division t =
     (has_text (map Total_field (csv_rows t)) \<or> has_text (map kWh_field (csv_rows t)))"

section \<open>Example tables\<close>

definition ymd :: "int \<Rightarrow> month \<Rightarrow> nat \<Rightarrow> timestamp" where
  "ymd y m d = \<lparr>year = y, month = m, day = d, nanos = 0\<rparr>"

definition bill_row :: "date_cell \<Rightarrow> num_cell \<Rightarrow> num_cell \<Rightarrow> csv_row" where
  "bill_row d k t = \<lparr>Date_field = d, kWh_field = k, Total_field = t\<rparr>"

definition table_of :: "csv_row list \<Rightarrow> response" where
  "table_of rs = Reply 200 (Table \<lparr>header = [''Date'', ''kWh'', ''Total''], csv_rows = rs\<rparr>)"

text \<open>Scenario A of the specification: two bills of 2024.\<close>

definition rows_A :: "csv_row list" where
  "rows_A =
     [bill_row (GoodDate (ymd 2024 January 15)) (Int64 500) (Number (Fin 75)),
      bill_row (GoodDate (ymd 2024 February 15)) (Int64 600) (Number (Fin 90))]"

text \<open>Scenario B: a bill of 10.00 for no energy, after a regular bill.\<close>

definition rows_B :: "csv_row list" where
  "rows_B =
     [bill_row (GoodDate (ymd 2024 January 15)) (Int64 500) (Number (Fin 75)),
      bill_row (GoodDate (ymd 2024 February 15)) (Int64 0) (Number (Fin 10))]"

text \<open>Scenario C: the header lacks the Total column.\<close>

definition scenario_C :: response where
  "scenario_C = Reply 200 (Table \<lparr>header = [''Date'', ''kWh''], csv_rows =
     [bill_row (GoodDate (ymd 2024 January 15)) (Int64 500) (Number NaN)]\<rparr>)"

text \<open>A table whose second row has a Date that \<^verbatim>\<open>to_datetime\<close> rejects.\<close>

definition rows_bad_date :: "csv_row list" where
  "rows_bad_date =
     [bill_row (GoodDate (ymd 2024 January 15)) (Int64 500) (Number (Fin 75)),
      bill_row (BadDate ''not a date'') (Int64 600) (Number (Fin 90))]"

text \<open>A table whose second row has text in the kWh column.\<close>

definition rows_bad_kWh :: "csv_row list" where
  "rows_bad_kWh =
     [bill_row (GoodDate (ymd 2024 January 15)) (Int64 500) (Number (Fin 75)),
      bill_row (GoodDate (ymd 2024 February 15)) (read_text ''abc'') (Number (Fin 90))]"

text \<open>A table whose second row has an empty Date field.\<close>

definition rows_empty_date :: "csv_row list" where
  "rows_empty_date =
     [bill_row (GoodDate (ymd 2024 January 15)) (Int64 500) (Number (Fin 75)),
      bill_row EmptyDate (Int64 600) (Number (Fin 90))]"

text \<open>Bills of two years, the later year first.\<close>

definition rows_two_years :: "csv_row list" where
  "rows_two_years =
     [bill_row (GoodDate (ymd 2024 February 15)) (Int64 600) (Number (Fin 90)),
      bill_row (GoodDate (ymd 2023 December 15)) (Int64 400) (Number (Fin 50)),
      bill_row (GoodDate (ymd 2024 January 15)) (Int64 500) (Number (Fin 75))]"

text \<open>Scenario B after a bill of 2023.\<close>

definition rows_B_after_2023 :: "csv_row list" where
  "rows_B_after_2023 =
     [bill_row (GoodDate (ymd 2023 December 15)) (Int64 400) (Number (Fin 50)),
      bill_row (GoodDate (ymd 2024 January 15)) (Int64 500) (Number (Fin 75)),
      bill_row (GoodDate (ymd 2024 February 15)) (Int64 0) (Number (Fin 10))]"

text \<open>A table whose second row has the marker N/A in the kWh column.\<close>

definition rows_NA_kWh :: "csv_row list" where
  "rows_NA_kWh =
     [bill_row (GoodDate (ymd 2024 January 15)) (Int64 500) (Number (Fin 75)),
      bill_row (GoodDate (ymd 2024 February 15)) (read_text ''N/A'') (Number (Fin 90))]"

text \<open>Two bills of 2024 whose integer kWh add up to \<open>2 ^ 63\<close>.\<close>

definition rows_huge :: "csv_row list" where
  "rows_huge =
     [bill_row (GoodDate (ymd 2024 January 15)) (Int64 9223372036854775807) (Number (Fin 75)),
      bill_row (GoodDate (ymd 2024 February 15)) (Int64 1) (Number (Fin 90))]"

text \<open>
  A bill of 2023, then two bills of 2024 for no energy: a charge of 10.00 and a credit
  of 5.00.
\<close>

definition rows_charge_and_credit :: "csv_row list" where
  "rows_charge_and_credit =
     [bill_row (GoodDate (ymd 2023 December 15)) (Int64 400) (Number (Fin 50)),
      bill_row (GoodDate (ymd 2024 January 15)) (Int64 0) (Number (Fin 10)),
      bill_row (GoodDate (ymd 2024 February 15)) (Int64 0) (Number (Fin (- 5)))]"

text \<open>A bill of 2023, then a regular bill of 2024 and a credit of 5.00 for no energy.\<close>

definition rows_credit_after_2023 :: "csv_row list" where
  "rows_credit_after_2023 =
     [bill_row (GoodDate (ymd 2023 December 15)) (Int64 400) (Number (Fin 50)),
      bill_row (GoodDate (ymd 2024 January 15)) (Int64 500) (Number (Fin 75)),
      bill_row (GoodDate (ymd 2024 February 15)) (Int64 0) (Number (Fin (- 5)))]"

text \<open>Three bills of 2024, the second for no energy and no money.\<close>

definition rows_nothing_billed :: "csv_row list" where
  "rows_nothing_billed =
     [bill_row (GoodDate (ymd 2024 January 15)) (Int64 500) (Number (Fin 75)),
      bill_row (GoodDate (ymd 2024 February 15)) (Int64 0) (Number (Fin 0)),
      bill_row (GoodDate (ymd 2024 March 15)) (Int64 400) (Number (Fin 100))]"

section \<open>Sums and means do not depend on the order of the rows\<close>

lemma fadd_commute: "fadd x y = fadd y x"
  by (cases x; cases y) auto

lemma fadd_assoc: "fadd (fadd x y) z = fadd x (fadd y z)"
  by (cases x; cases y; cases z) auto

lemma fadd_left_commute: "fadd x (fadd y z) = fadd y (fadd x z)"
  by (metis fadd_assoc fadd_commute)

lemma fold_fadd_mset: "mset xs = mset ys \<Longrightarrow> fold fadd xs a = fold fadd ys a"
proof -
  assume eq: "mset xs = mset ys"
  have "fold fadd xs = fold fadd ys"
    by (rule fold_multiset_equiv) (auto simp: fun_eq_iff fadd_left_commute eq)
  then show ?thesis by simp
qed

lemma pd_sum_mset: "mset xs = mset ys \<Longrightarrow> pd_sum xs = pd_sum ys"
  unfolding pd_sum_def by (rule fold_fadd_mset) (metis mset_filter)

lemma pd_mean_mset: "mset xs = mset ys \<Longrightarrow> pd_mean xs = pd_mean ys"
proof -
  assume eq: "mset xs = mset ys"
  then have "mset [x \<leftarrow> xs. x \<noteq> NaN] = mset [x \<leftarrow> ys. x \<noteq> NaN]"
    by (metis mset_filter)
  then have "length [x \<leftarrow> xs. x \<noteq> NaN] = length [x \<leftarrow> ys. x \<noteq> NaN]"
    by (rule mset_eq_length)
  with eq show ?thesis
    by (simp add: pd_mean_def pd_sum_mset [OF eq])
qed

lemma fold_fadd_Fin: "fold fadd (map Fin rs) (Fin a) = Fin (a + sum_list rs)"
  by (induction rs arbitrary: a) (auto simp: algebra_simps)

lemma mset_sort_values_Date: "mset (sort_values_Date rs) = mset rs"
  by (simp add: sort_values_Date_def)

lemma py_eq_Some: "py_eq a (Some y) = (a = Some y)"
  by (cases a) (auto simp: py_eq_def)

lemma mset_year_df: "mset (year_df df (Some y)) = mset (group_of df y)"
  by (simp add: year_df_def group_of_def mset_sort_values_Date py_eq_Some)

section \<open>When the load succeeds\<close>

lemma to_datetime_Inr:
  "to_datetime cs = Inr tss \<longleftrightarrow> (\<forall>c \<in> set cs. \<not> is_bad c) \<and> tss = map timestamp_of cs"
proof (induction cs arbitrary: tss rule: to_datetime.induct)
  case 1
  then show ?case by auto
next
  case (2 s cs)
  then show ?case by auto
next
  case (3 cs)
  then show ?case by (cases "to_datetime cs") auto
next
  case (4 t cs)
  then show ?case by (cases "to_datetime cs") auto
qed

lemma series_truediv_Inr:
  "series_truediv xs ys = Inr us \<longleftrightarrow>
     \<not> (has_text xs \<or> has_text ys)
     \<and> us = map (\<lambda>(x, y). truediv (float_of x) (float_of y)) (zip xs ys)"
  by (auto simp: series_truediv_def)

lemma zip_columns:
  "map (make_bill lc)
     (zip (map f rs) (zip (map g rs) (zip (map h rs)
        (map (\<lambda>(x, y). d x y) (zip (map h rs) (map g rs))))))
   = map (\<lambda>r. make_bill lc (f r, g r, h r, d (h r) (g r))) rs"
  by (induction rs) auto

lemma and_then_Inr: "and_then r rest = Inr v \<longleftrightarrow> (\<exists>x. r = Inr x \<and> rest x = Inr v)"
  by (cases r) (auto simp: and_then_def)

lemma fetch_csv_Inr:
  "fetch_csv response = Inr t \<longleftrightarrow>
     (\<exists>status. response = Reply status (Table t) \<and> \<not> (400 \<le> status \<and> status < 600))"
  by (auto simp: fetch_csv_def split: response.splits body.splits)

lemma getitem_Inr:
  "getitem t name field = Inr col \<longleftrightarrow> name \<in> set (header t) \<and> col = map field (csv_rows t)"
  by (auto simp: getitem_def)

lemma try_load_Inr:
  "try_load lc response = Inr df \<longleftrightarrow>
     (\<exists>status t. response = Reply status (Table t) \<and> \<not> (400 \<le> status \<and> status < 600)
        \<and> set required_columns \<subseteq> set (header t)
        \<and> (\<forall>r \<in> set (csv_rows t). \<not> is_bad (Date_field r))
        \<and> \<not> text_division t
        \<and> df = map (derived_row lc) (csv_rows t))"
proof -
  have rows: "map (make_bill lc)
      (zip (map (timestamp_of \<circ> Date_field) rs) (zip (map kWh_field rs) (zip (map Total_field rs)
        (map (\<lambda>(x, y). truediv (float_of x) (float_of y))
           (zip (map Total_field rs) (map kWh_field rs))))))
      = map (derived_row lc) rs" for rs
    by (simp add: zip_columns derived_row_def)
  show ?thesis
    by (auto simp: try_load_def and_then_Inr fetch_csv_Inr getitem_Inr to_datetime_Inr
        series_truediv_Inr text_division_def required_columns_def rows)
qed

lemma load_Some:
  "load_fpl_data lc response = Some df \<longleftrightarrow> try_load lc response = Inr df"
  by (cases "try_load lc response") (auto simp: load_fpl_data_def)

lemma load_None:
  "load_fpl_data lc response = None \<longleftrightarrow> (\<exists>e. try_load lc response = Inl e)"
  by (cases "try_load lc response") (auto simp: load_fpl_data_def)

lemma load_Some_rows:
  "load_fpl_data lc response = Some df \<Longrightarrow>
     \<exists>status t. response = Reply status (Table t) \<and> df = map (derived_row lc) (csv_rows t)"
  by (auto simp: load_Some try_load_Inr)

lemma load_None_iff:
  "load_fpl_data lc response = None \<longleftrightarrow> (\<forall>df. try_load lc response \<noteq> Inr df)"
  by (cases "try_load lc response") (auto simp: load_fpl_data_def)

lemma derived_row_simps:
  "Date (derived_row lc r) = timestamp_of (Date_field r)"
  "kWh (derived_row lc r) = kWh_field r"
  "Total (derived_row lc r) = Total_field r"
  "Unit_Cost (derived_row lc r) = truediv (float_of (Total_field r)) (float_of (kWh_field r))"
  "Year (derived_row lc r) = map_option year (timestamp_of (Date_field r))"
  "Month (derived_row lc r) = map_option (\<lambda>t. month_number (month t)) (timestamp_of (Date_field r))"
  "Month_Name (derived_row lc r) = map_option (strftime_B lc) (timestamp_of (Date_field r))"
  by (simp_all add: derived_row_def make_bill_def)

lemma loaded_row:
  assumes "load_fpl_data lc response = Some df" and "r \<in> set df"
  shows "Unit_Cost r = truediv (float_of (Total r)) (float_of (kWh r))"
    and "Year r = map_option year (Date r)"
    and "Month r = map_option (\<lambda>t. month_number (month t)) (Date r)"
    and "Month_Name r = map_option (strftime_B lc) (Date r)"
  using assms by (auto dest!: load_Some_rows simp: derived_row_simps)

lemma load_table_of:
  assumes "\<forall>r \<in> set rs. \<not> is_bad (Date_field r)"
    and "\<not> text_division \<lparr>header = [''Date'', ''kWh'', ''Total''], csv_rows = rs\<rparr>"
  shows "load_fpl_data lc (table_of rs) = Some (map (derived_row lc) rs)"
  using assms by (simp add: load_Some try_load_Inr table_of_def required_columns_def)

lemma text_division_numeric:
  "\<forall>r \<in> set (csv_rows t). \<not> is_text (kWh_field r) \<and> \<not> is_text (Total_field r)
     \<Longrightarrow> \<not> text_division t"
  by (auto simp: text_division_def has_text_def)

lemma load_rows_A: "load_fpl_data lc (table_of rows_A) = Some (map (derived_row lc) rows_A)"
  by (rule load_table_of [OF _ text_division_numeric]) (simp_all add: rows_A_def bill_row_def)

lemma load_rows_B: "load_fpl_data lc (table_of rows_B) = Some (map (derived_row lc) rows_B)"
  by (rule load_table_of [OF _ text_division_numeric]) (simp_all add: rows_B_def bill_row_def)

lemma load_rows_empty_date:
  "load_fpl_data lc (table_of rows_empty_date) = Some (map (derived_row lc) rows_empty_date)"
  by (rule load_table_of [OF _ text_division_numeric])
     (simp_all add: rows_empty_date_def bill_row_def)

lemma load_rows_two_years:
  "load_fpl_data lc (table_of rows_two_years) = Some (map (derived_row lc) rows_two_years)"
  by (rule load_table_of [OF _ text_division_numeric])
     (simp_all add: rows_two_years_def bill_row_def)

lemma load_rows_NA_kWh:
  "load_fpl_data lc (table_of rows_NA_kWh) = Some (map (derived_row lc) rows_NA_kWh)"
  by (rule load_table_of [OF _ text_division_numeric])
     (simp_all add: rows_NA_kWh_def bill_row_def read_text_def na_values_def)

lemma text_division_row:
  assumes "r \<in> set (csv_rows t)"
    and "is_text (kWh_field r) \<or> is_text (Total_field r)"
  shows "text_division t"
  using assms by (auto simp: text_division_def has_text_def)

lemma loaded_numeric:
  assumes "load_fpl_data lc response = Some df"
  shows "\<not> has_text (map kWh df)" and "\<not> has_text (map Total df)"
  using assms
  by (auto simp: load_Some try_load_Inr text_division_def has_text_def derived_row_simps)

section \<open>The unit cost of a bill (claim C1)\<close>

text \<open>
  Claim C1 says that the unit cost of a derived record is \<open>Total / kWh\<close> when
  \<open>kWh > 0\<close>, and an explicit undefined marker, not an infinity, when \<open>kWh = 0\<close>.
  The script has no such marker: line 37 divides the two columns, so a bill of no
  energy gets the IEEE quotient. What holds for every row of a loaded frame:
  \<open>Unit_Cost\<close> is the IEEE quotient of \<open>Total\<close> by \<open>kWh\<close>; for finite numbers
  (integers or floats) it is the real quotient when \<open>kWh > 0\<close>, an infinity when
  \<open>kWh = 0\<close> and \<open>Total \<noteq> 0\<close>, and NaN when both are 0. The load does not fail on
  such a row.
\<close>

theorem unit_cost_is_ieee_quotient:
  assumes "load_fpl_data lc response = Some df" and "r \<in> set df"
  shows "Unit_Cost r = truediv (float_of (Total r)) (float_of (kWh r))
    \<and> (\<forall>k t. float_of (kWh r) = Fin k \<and> float_of (Total r) = Fin t \<longrightarrow>
          (0 < k \<longrightarrow> Unit_Cost r = Fin (t / k))
          \<and> (k = 0 \<and> t \<noteq> 0 \<longrightarrow> is_inf (Unit_Cost r))
          \<and> (k = 0 \<and> t = 0 \<longrightarrow> Unit_Cost r = NaN))"
proof -
  have q: "Unit_Cost r = truediv (float_of (Total r)) (float_of (kWh r))"
    using assms by (rule loaded_row)
  then show ?thesis by (auto simp: is_inf_def)
qed

text \<open>
  Scenario B of the specification (a bill of 10.00 for 0 kWh): the load succeeds and
  the unit cost of that bill is plus infinity.
\<close>

theorem unit_cost_zero_energy_is_infinite:
  "map_option (map Unit_Cost) (load_fpl_data C_LC_TIME (table_of rows_B))
     = Some [Fin (3 / 20), PInf]"
  unfolding load_rows_B by (simp add: derived_row_simps rows_B_def bill_row_def)

theorem unit_cost_is_ieee_quotient_witness:
  "load_fpl_data C_LC_TIME (table_of rows_B) = Some (map (derived_row C_LC_TIME) rows_B)
   \<and> Unit_Cost (derived_row C_LC_TIME (rows_B ! 0)) = Fin (75 / 500)
   \<and> is_inf (Unit_Cost (derived_row C_LC_TIME (rows_B ! 1)))"
proof -
  let ?df = "map (derived_row C_LC_TIME) rows_B"
  have loaded: "load_fpl_data C_LC_TIME (table_of rows_B) = Some ?df"
    by (rule load_rows_B)
  have r0: "derived_row C_LC_TIME (rows_B ! 0) \<in> set ?df"
    and r1: "derived_row C_LC_TIME (rows_B ! 1) \<in> set ?df"
    by (simp_all add: rows_B_def)
  have "float_of (kWh (derived_row C_LC_TIME (rows_B ! 0))) = Fin 500"
    "float_of (Total (derived_row C_LC_TIME (rows_B ! 0))) = Fin 75"
    "float_of (kWh (derived_row C_LC_TIME (rows_B ! 1))) = Fin 0"
    "float_of (Total (derived_row C_LC_TIME (rows_B ! 1))) = Fin 10"
    by (simp_all add: rows_B_def bill_row_def derived_row_simps)
  with unit_cost_is_ieee_quotient [OF loaded r0] unit_cost_is_ieee_quotient [OF loaded r1]
    loaded
  show ?thesis by (simp add: is_inf_def)
qed

section \<open>A header without a required column (claim C3)\<close>

text \<open>
  Claim C3 says that a header without Date, kWh or Total makes the parse fail with a
  MalformedInputError and that no partial dataset is returned. In the script the
  subscript of line 34 or 37 raises KeyError, the handler of line 46 catches it, and the
  function returns None: whenever one of the three columns is absent from the header,
  \<^verbatim>\<open>load_fpl_data\<close> returns None and no frame.
\<close>

theorem missing_column_returns_None:
  assumes "\<not> set required_columns \<subseteq> set (header t)"
  shows "load_fpl_data lc (Reply status (Table t)) = None"
  using assms by (simp add: load_None_iff try_load_Inr)

text \<open>
  Scenario C (no Total column): the exception inside is Python's KeyError, and the value
  returned is None, the very value returned when the fetch fails. No error of a class
  of its own reaches the caller.
\<close>

theorem missing_column_is_not_told_apart:
  "try_load C_LC_TIME scenario_C = Inl (KeyError ''Total'')
   \<and> load_fpl_data C_LC_TIME scenario_C = None
   \<and> load_fpl_data C_LC_TIME scenario_C = load_fpl_data C_LC_TIME NoReply"
  by (simp add: scenario_C_def load_fpl_data_def try_load_def and_then_def fetch_csv_def
      getitem_def bill_row_def)

theorem missing_column_returns_None_witness:
  "\<not> set required_columns \<subseteq> set [''Date'', ''kWh'']
   \<and> load_fpl_data C_LC_TIME scenario_C = None"
proof -
  have absent: "\<not> set required_columns \<subseteq> set [''Date'', ''kWh'']"
    by (simp add: required_columns_def)
  then have "\<not> set required_columns \<subseteq> set (header \<lparr>header = [''Date'', ''kWh''], csv_rows =
     [bill_row (GoodDate (ymd 2024 January 15)) (Int64 500) (Number NaN)]\<rparr>)"
    by simp
  from missing_column_returns_None [OF this, of C_LC_TIME 200] absent
  show ?thesis by (simp add: scenario_C_def)
qed

section \<open>A row that does not parse (claim C4)\<close>

text \<open>
  Claim C4 says that one row with an unparseable Date, or with non-numeric text in kWh
  or Total, fails the whole parse with a RowParseError that carries the row index, the
  column and the raw text. In the script such a row makes \<^verbatim>\<open>to_datetime\<close> raise
  ValueError or the division raise TypeError, and the handler turns either into None;
  but a field that \<^verbatim>\<open>read_csv\<close> reads as a missing value is no such row. What
  holds: when a row has a Date that \<^verbatim>\<open>to_datetime\<close> rejects, or a kWh or Total
  field that \<^verbatim>\<open>read_csv\<close> keeps as text, \<^verbatim>\<open>load_fpl_data\<close> returns None and no
  frame.
\<close>

theorem bad_row_returns_None:
  assumes "r \<in> set (csv_rows t)"
    and "is_bad (Date_field r) \<or> is_text (kWh_field r) \<or> is_text (Total_field r)"
  shows "load_fpl_data lc (Reply status (Table t)) = None"
proof (cases "is_bad (Date_field r)")
  case True
  with assms(1) show ?thesis by (auto simp: load_None_iff try_load_Inr)
next
  case False
  with assms have "text_division t" by (auto intro: text_division_row)
  then show ?thesis by (simp add: load_None_iff try_load_Inr)
qed

text \<open>
  A rejected Date in the second row, and the text abc in the kWh field of the second
  row: the value returned is None in both cases, as for a failed fetch; neither the row
  nor the column nor the text is part of it. An empty Date field and the text N/A in
  the kWh field do not fail the load: \<^verbatim>\<open>read_csv\<close> reads both as missing values,
  and the table loads with a row that has no date, or no kWh and no unit cost.
\<close>

theorem bad_row_is_not_told_apart:
  "try_load C_LC_TIME (table_of rows_bad_date) = Inl (ValueError ''not a date'')
   \<and> load_fpl_data C_LC_TIME (table_of rows_bad_date) = None
   \<and> load_fpl_data C_LC_TIME (table_of rows_bad_date) = load_fpl_data C_LC_TIME NoReply
   \<and> try_load C_LC_TIME (table_of rows_bad_kWh) = Inl TypeError
   \<and> load_fpl_data C_LC_TIME (table_of rows_bad_kWh) = load_fpl_data C_LC_TIME NoReply
   \<and> map_option (map Date) (load_fpl_data C_LC_TIME (table_of rows_empty_date))
     = Some [Some (ymd 2024 January 15), None]
   \<and> map_option (map (\<lambda>r. (kWh r, Unit_Cost r))) (load_fpl_data C_LC_TIME (table_of rows_NA_kWh))
     = Some [(Int64 500, Fin (3 / 20)), (Number NaN, NaN)]"
proof -
  have "try_load C_LC_TIME (table_of rows_bad_date) = Inl (ValueError ''not a date'')"
    and "try_load C_LC_TIME (table_of rows_bad_kWh) = Inl TypeError"
    by (simp_all add: rows_bad_date_def rows_bad_kWh_def table_of_def try_load_def
        and_then_def fetch_csv_def getitem_def bill_row_def series_truediv_def has_text_def
        read_text_def na_values_def)
  moreover have "try_load C_LC_TIME NoReply = Inl RequestException"
    by (simp add: try_load_def and_then_def fetch_csv_def)
  moreover have "map_option (map Date) (load_fpl_data C_LC_TIME (table_of rows_empty_date))
     = Some [Some (ymd 2024 January 15), None]"
    unfolding load_rows_empty_date
    by (simp add: rows_empty_date_def bill_row_def derived_row_simps)
  moreover have "map_option (map (\<lambda>r. (kWh r, Unit_Cost r)))
        (load_fpl_data C_LC_TIME (table_of rows_NA_kWh))
     = Some [(Int64 500, Fin (3 / 20)), (Number NaN, NaN)]"
    unfolding load_rows_NA_kWh
    by (simp add: rows_NA_kWh_def bill_row_def derived_row_simps read_text_def na_values_def)
  ultimately show ?thesis
    by (simp add: load_fpl_data_def)
qed

theorem bad_row_returns_None_witness:
  "is_bad (Date_field (rows_bad_date ! 1))
   \<and> load_fpl_data C_LC_TIME (table_of rows_bad_date) = None
   \<and> is_text (kWh_field (rows_bad_kWh ! 1))
   \<and> load_fpl_data C_LC_TIME (table_of rows_bad_kWh) = None"
proof -
  have d: "is_bad (Date_field (rows_bad_date ! 1))"
    by (simp add: rows_bad_date_def bill_row_def)
  have k: "is_text (kWh_field (rows_bad_kWh ! 1))"
    by (simp add: rows_bad_kWh_def bill_row_def read_text_def na_values_def)
  have "rows_bad_date ! 1 \<in> set (csv_rows \<lparr>header = [''Date'', ''kWh'', ''Total''], csv_rows = rows_bad_date\<rparr>)"
    by (simp add: rows_bad_date_def)
  from bad_row_returns_None [OF this, of C_LC_TIME 200] d
  have 1: "load_fpl_data C_LC_TIME (table_of rows_bad_date) = None"
    by (simp add: table_of_def)
  have "rows_bad_kWh ! 1 \<in> set (csv_rows \<lparr>header = [''Date'', ''kWh'', ''Total''], csv_rows = rows_bad_kWh\<rparr>)"
    by (simp add: rows_bad_kWh_def)
  from bad_row_returns_None [OF this, of C_LC_TIME 200] k
  have 2: "load_fpl_data C_LC_TIME (table_of rows_bad_kWh) = None"
    by (simp add: table_of_def)
  from d k 1 2 show ?thesis by simp
qed

lemma month_number_range: "1 \<le> month_number m \<and> month_number m \<le> 12"
  by (cases m) simp_all

lemma C_LC_TIME_categoryarray: "C_LC_TIME m = categoryarray ! (month_number m - 1)"
  by (cases m) (simp_all add: categoryarray_def)

section \<open>Year, month and month name (claim C8)\<close>

text \<open>
  Claim C8 says that year and month (1 to 12) are the calendar parts of the date and
  that the month name is the English name taken from a fixed table of twelve entries,
  not produced by locale-aware formatting. Lines 40 and 41 read the parts from the
  date; line 42 formats the name with \<^verbatim>\<open>strftime('%B')\<close>, which is the formatting
  of the \<^verbatim>\<open>LC_TIME\<close> locale. What holds for every row of a loaded frame: a row
  without a date has no year, month or month name; otherwise year and month are the
  parts of the date, the month is between 1 and 12, the month name is the locale's
  name of that month, and in the C locale (Python's default) it is the entry of the
  script's English month table at position month - 1.
\<close>

theorem calendar_parts_of_date:
  assumes "load_fpl_data lc response = Some df" and "r \<in> set df"
  shows "(Date r = None \<longrightarrow> Year r = None \<and> Month r = None \<and> Month_Name r = None)
    \<and> (\<forall>t. Date r = Some t \<longrightarrow>
          Year r = Some (year t) \<and> Month r = Some (month_number (month t))
          \<and> 1 \<le> month_number (month t) \<and> month_number (month t) \<le> 12
          \<and> Month_Name r = Some (lc (month t))
          \<and> (lc = C_LC_TIME \<longrightarrow>
                Month_Name r = Some (categoryarray ! (month_number (month t) - 1))))"
proof -
  note parts = loaded_row(2-4) [OF assms]
  show ?thesis
    using month_number_range
    by (auto simp: parts strftime_B_def C_LC_TIME_categoryarray)
qed

text \<open>
  With the German \<^verbatim>\<open>LC_TIME\<close> the bills of Scenario A are named Januar and
  Februar, and Januar is no entry of the month table.
\<close>

theorem month_name_follows_LC_TIME:
  "map_option (map Month_Name) (load_fpl_data de_DE_LC_TIME (table_of rows_A))
     = Some [Some ''Januar'', Some ''Februar'']
   \<and> ''Januar'' \<notin> set categoryarray"
  unfolding load_rows_A
  by (simp add: derived_row_simps rows_A_def bill_row_def strftime_B_def ymd_def
      categoryarray_def)

theorem calendar_parts_of_date_witness:
  "load_fpl_data C_LC_TIME (table_of rows_A) = Some (map (derived_row C_LC_TIME) rows_A)
   \<and> Date (derived_row C_LC_TIME (rows_A ! 1)) = Some (ymd 2024 February 15)
   \<and> Year (derived_row C_LC_TIME (rows_A ! 1)) = Some 2024
   \<and> Month (derived_row C_LC_TIME (rows_A ! 1)) = Some 2
   \<and> Month_Name (derived_row C_LC_TIME (rows_A ! 1)) = Some ''February''"
proof -
  let ?r = "derived_row C_LC_TIME (rows_A ! 1)"
  have loaded: "load_fpl_data C_LC_TIME (table_of rows_A)
      = Some (map (derived_row C_LC_TIME) rows_A)"
    by (rule load_rows_A)
  have row: "?r \<in> set (map (derived_row C_LC_TIME) rows_A)"
    by (simp add: rows_A_def)
  have date: "Date ?r = Some (ymd 2024 February 15)"
    by (simp add: rows_A_def bill_row_def derived_row_simps)
  from calendar_parts_of_date [OF loaded row] date
  have "Year ?r = Some 2024 \<and> Month ?r = Some 2 \<and> Month_Name ?r = Some ''February''"
    by (simp add: ymd_def)
  with loaded date show ?thesis
    by simp
qed

section \<open>No exception leaves load\_fpl\_data (claim C10)\<close>

text \<open>
  Claim C10: for every fetch outcome and every body, \<^verbatim>\<open>load_fpl_data\<close> returns
  either None or the fully derived frame, one derived row for every row of the table in
  the order of the table; and every class of failure gives the one value None: no
  reply, an error status, a body that \<^verbatim>\<open>read_csv\<close> rejects, a missing column, a
  rejected Date, a division that meets text. The function is total: no exception of the
  \<^verbatim>\<open>try\<close> block is left uncaught.
\<close>

theorem load_returns_frame_or_None:
  "(load_fpl_data lc response = None
      \<or> (\<exists>status t. response = Reply status (Table t)
            \<and> load_fpl_data lc response = Some (map (derived_row lc) (csv_rows t))))
   \<and> load_fpl_data lc NoReply = None
   \<and> (400 \<le> status \<and> status < 600 \<longrightarrow> load_fpl_data lc (Reply status content) = None)
   \<and> load_fpl_data lc (Reply status Unreadable) = None
   \<and> (\<not> set required_columns \<subseteq> set (header t) \<longrightarrow>
         load_fpl_data lc (Reply status (Table t)) = None)
   \<and> ((\<exists>r \<in> set (csv_rows t). is_bad (Date_field r)) \<longrightarrow>
         load_fpl_data lc (Reply status (Table t)) = None)
   \<and> (text_division t \<longrightarrow> load_fpl_data lc (Reply status (Table t)) = None)"
proof -
  have "load_fpl_data lc response = None
      \<or> (\<exists>status t. response = Reply status (Table t)
            \<and> load_fpl_data lc response = Some (map (derived_row lc) (csv_rows t)))"
  proof (cases "load_fpl_data lc response")
    case None
    then show ?thesis by simp
  next
    case (Some df)
    with load_Some_rows [OF Some] show ?thesis by auto
  qed
  moreover have "load_fpl_data lc NoReply = None"
    by (simp add: load_None_iff try_load_Inr)
  moreover have "400 \<le> status \<and> status < 600 \<longrightarrow> load_fpl_data lc (Reply status content) = None"
    by (simp add: load_None_iff try_load_Inr)
  moreover have "load_fpl_data lc (Reply status Unreadable) = None"
    by (simp add: load_None_iff try_load_Inr)
  moreover have "\<not> set required_columns \<subseteq> set (header t) \<longrightarrow>
         load_fpl_data lc (Reply status (Table t)) = None"
    by (simp add: load_None_iff try_load_Inr)
  moreover have "(\<exists>r \<in> set (csv_rows t). is_bad (Date_field r)) \<longrightarrow>
         load_fpl_data lc (Reply status (Table t)) = None"
    by (auto simp: load_None_iff try_load_Inr)
  moreover have "text_division t \<longrightarrow> load_fpl_data lc (Reply status (Table t)) = None"
    by (simp add: load_None_iff try_load_Inr)
  ultimately show ?thesis by blast
qed

theorem load_returns_frame_or_None_witness:
  "load_fpl_data C_LC_TIME NoReply = None
   \<and> load_fpl_data C_LC_TIME (Reply 404 Unreadable) = None
   \<and> load_fpl_data C_LC_TIME (Reply 200 Unreadable) = None
   \<and> load_fpl_data C_LC_TIME scenario_C = None
   \<and> load_fpl_data C_LC_TIME (table_of rows_bad_date) = None
   \<and> load_fpl_data C_LC_TIME (table_of rows_bad_kWh) = None
   \<and> load_fpl_data C_LC_TIME (table_of rows_A) = Some (map (derived_row C_LC_TIME) rows_A)"
proof -
  let ?t = "\<lambda>rs. \<lparr>header = [''Date'', ''kWh'', ''Total''], csv_rows = rs\<rparr>"
  let ?c = "\<lparr>header = [''Date'', ''kWh''], csv_rows =
     [bill_row (GoodDate (ymd 2024 January 15)) (Int64 500) (Number NaN)]\<rparr>"
  have status: "(400::nat) \<le> 404 \<and> (404::nat) < 600" by simp
  have absent: "\<not> set required_columns \<subseteq> set (header ?c)"
    by (simp add: required_columns_def)
  have bad: "\<exists>r \<in> set (csv_rows (?t rows_bad_date)). is_bad (Date_field r)"
    by (simp add: rows_bad_date_def bill_row_def)
  have mixed: "text_division (?t rows_bad_kWh)"
    by (simp add: text_division_def has_text_def rows_bad_kWh_def bill_row_def read_text_def
        na_values_def)
  have loaded: "load_fpl_data C_LC_TIME (table_of rows_A) \<noteq> None"
    by (simp add: load_rows_A)
  have 1: "load_fpl_data C_LC_TIME NoReply = None
      \<and> load_fpl_data C_LC_TIME (Reply 404 Unreadable) = None"
    using load_returns_frame_or_None [of C_LC_TIME NoReply 404 Unreadable ?c] status
    by simp
  have 2: "load_fpl_data C_LC_TIME (Reply 200 Unreadable) = None
      \<and> load_fpl_data C_LC_TIME (Reply 200 (Table ?c)) = None"
    using load_returns_frame_or_None [of C_LC_TIME NoReply 200 Unreadable ?c] absent
    by simp
  have 3: "load_fpl_data C_LC_TIME (Reply 200 (Table (?t rows_bad_date))) = None"
    using load_returns_frame_or_None [of C_LC_TIME NoReply 200 Unreadable "?t rows_bad_date"]
      bad
    by simp
  have 4: "load_fpl_data C_LC_TIME (Reply 200 (Table (?t rows_bad_kWh))) = None"
    using load_returns_frame_or_None [of C_LC_TIME NoReply 200 Unreadable "?t rows_bad_kWh"]
      mixed
    by simp
  have 5: "load_fpl_data C_LC_TIME (table_of rows_A) = Some (map (derived_row C_LC_TIME) rows_A)"
    using load_returns_frame_or_None [of C_LC_TIME "table_of rows_A" 200 Unreadable "?t rows_A"]
      loaded
    by (auto simp: table_of_def)
  from 1 2 3 4 5 show ?thesis
    by (simp add: scenario_C_def table_of_def)
qed

section \<open>Sorting the years\<close>

lemma py_insort_Some:
  "sorted ys \<Longrightarrow> \<exists>zs. py_insort (Some x) (map Some ys) = map Some zs
      \<and> sorted zs \<and> set zs = insert x (set ys) \<and> length zs = Suc (length ys)"
proof (induction ys)
  case Nil
  show ?case by (intro exI [of _ "[x]"]) simp
next
  case (Cons y ys)
  show ?case
  proof (cases "x < y")
    case True
    with Cons.prems have "py_insort (Some x) (map Some (y # ys)) = map Some (x # y # ys)"
      and "sorted (x # y # ys)"
      by (auto simp: py_lt_def)
    then show ?thesis
      by (intro exI [of _ "x # y # ys"]) auto
  next
    case False
    from Cons.prems have "sorted ys" by simp
    from Cons.IH [OF this] obtain zs where zs:
      "py_insort (Some x) (map Some ys) = map Some zs" "sorted zs"
      "set zs = insert x (set ys)" "length zs = Suc (length ys)"
      by blast
    with False Cons.prems have "py_insort (Some x) (map Some (y # ys)) = map Some (y # zs)"
      and "sorted (y # zs)"
      by (auto simp: py_lt_def)
    with zs show ?thesis
      by (intro exI [of _ "y # zs"]) auto
  qed
qed

lemma foldl_py_insort_Some:
  "sorted acc \<Longrightarrow> \<exists>zs. foldl (\<lambda>acc x. py_insort x acc) (map Some acc) (map Some xs) = map Some zs
      \<and> sorted zs \<and> set zs = set acc \<union> set xs \<and> length zs = length acc + length xs"
proof (induction xs arbitrary: acc)
  case Nil
  then show ?case by auto
next
  case (Cons x xs)
  from py_insort_Some [OF Cons.prems, of x] obtain ys where ys:
    "py_insort (Some x) (map Some acc) = map Some ys" "sorted ys"
    "set ys = insert x (set acc)" "length ys = Suc (length acc)"
    by blast
  from Cons.IH [OF ys(2)] obtain zs where
    "foldl (\<lambda>acc x. py_insort x acc) (map Some ys) (map Some xs) = map Some zs"
    "sorted zs" "set zs = set ys \<union> set xs" "length zs = length ys + length xs"
    by blast
  with ys show ?case
    by (intro exI [of _ zs]) auto
qed

lemma py_sorted_Some:
  "\<exists>zs. py_sorted (map Some xs) = map Some zs \<and> sorted zs \<and> set zs = set xs
      \<and> length zs = length xs"
  using foldl_py_insort_Some [of "[]" xs] by (simp add: py_sorted_def)

lemma distinct_unique: "distinct (unique xs)"
  by (simp add: unique_def)

lemma set_unique: "set (unique xs) = set xs"
  by (simp add: unique_def)

lemma all_Some_list: "None \<notin> set xs \<Longrightarrow> \<exists>ys. xs = map Some ys"
proof (induction xs)
  case Nil
  then show ?case by simp
next
  case (Cons x xs)
  then obtain ys where "xs = map Some ys" by auto
  moreover from Cons.prems obtain y where "x = Some y" by (cases x) auto
  ultimately have "x # xs = map Some (y # ys)" by simp
  then show ?case by (rule exI)
qed

lemma available_years_no_NaN:
  assumes "\<forall>r \<in> set df. Year r \<noteq> None"
  shows "\<exists>ys. available_years df = map Some ys \<and> sorted ys \<and> distinct ys
     \<and> set ys = {y. \<exists>r \<in> set df. Year r = Some y}"
proof -
  from assms have "None \<notin> set (unique (map Year df))"
    by (auto simp: set_unique)
  then obtain us where us: "unique (map Year df) = map Some us"
    using all_Some_list by blast
  have "distinct (map Some us)"
    using distinct_unique [of "map Year df"] by (simp add: us)
  then have d: "distinct us" by (simp add: distinct_map)
  have img: "Some ` set us = Year ` set df"
    using set_unique [of "map Year df"] by (simp add: us)
  have s: "set us = {y. \<exists>r \<in> set df. Year r = Some y}"
  proof (rule set_eqI)
    fix y
    have "y \<in> set us \<longleftrightarrow> Some y \<in> Some ` set us" by blast
    also have "\<dots> \<longleftrightarrow> Some y \<in> Year ` set df" by (simp only: img)
    also have "\<dots> \<longleftrightarrow> (\<exists>r \<in> set df. Year r = Some y)" by force
    finally show "y \<in> set us \<longleftrightarrow> y \<in> {y. \<exists>r \<in> set df. Year r = Some y}" by simp
  qed
  from py_sorted_Some [of us] obtain zs where zs:
    "py_sorted (map Some us) = map Some zs" "sorted zs" "set zs = set us"
    "length zs = length us"
    by blast
  have "card (set zs) = length zs"
    using distinct_card [OF d] zs(3,4) by simp
  then have "distinct zs" by (rule card_distinct)
  moreover have "available_years df = map Some zs"
    by (simp add: available_years_def us zs(1))
  moreover have "set zs = {y. \<exists>r \<in> set df. Year r = Some y}"
    by (simp only: zs(3) s)
  ultimately show ?thesis
    using zs(2) by blast
qed

section \<open>The list of years (claim C7)\<close>

text \<open>
  Claim C7 says that for every successfully parsed dataset the list of available years
  holds every distinct year of the input once, ascending. The script loads a table with
  an empty Date field without complaint (the date is NaT and the year NaN), and NaN
  then is an entry of the list. What holds: when every row of the loaded frame has a
  date, \<^verbatim>\<open>available_years\<close> is the ascending list, without repetition, of exactly
  the years of the rows; a year with a single bill is in it.
\<close>

theorem available_years_ascending_distinct:
  assumes "load_fpl_data lc response = Some df" and "\<forall>r \<in> set df. Date r \<noteq> None"
  shows "\<exists>ys. available_years df = map Some ys \<and> sorted ys \<and> distinct ys
     \<and> set ys = {y. \<exists>r \<in> set df. Year r = Some y}"
proof (rule available_years_no_NaN)
  show "\<forall>r \<in> set df. Year r \<noteq> None"
  proof
    fix r assume r: "r \<in> set df"
    with assms(2) have "Date r \<noteq> None" by blast
    with loaded_row(2) [OF assms(1) r] show "Year r \<noteq> None" by simp
  qed
qed

text \<open>
  A table whose second row has an empty Date field loads, and the list of years is
  2024 followed by NaN: an entry that is no year, and a list that is not ascending for
  Python's comparison.
\<close>

theorem available_years_holds_NaN:
  "map_option available_years (load_fpl_data C_LC_TIME (table_of rows_empty_date))
     = Some [Some 2024, None]
   \<and> \<not> py_le (Some 2024) None"
  unfolding load_rows_empty_date
  by (simp add: available_years_def py_sorted_def unique_def derived_row_simps
      rows_empty_date_def bill_row_def ymd_def py_lt_def py_le_def)

theorem available_years_ascending_distinct_witness:
  "load_fpl_data C_LC_TIME (table_of rows_two_years)
     = Some (map (derived_row C_LC_TIME) rows_two_years)
   \<and> available_years (map (derived_row C_LC_TIME) rows_two_years) = [Some 2023, Some 2024]"
proof -
  let ?df = "map (derived_row C_LC_TIME) rows_two_years"
  have loaded: "load_fpl_data C_LC_TIME (table_of rows_two_years) = Some ?df"
    by (rule load_rows_two_years)
  have dated: "\<forall>r \<in> set ?df. Date r \<noteq> None"
    by (simp add: rows_two_years_def bill_row_def derived_row_simps)
  have years: "{y. \<exists>r \<in> set ?df. Year r = Some y} = {2023, 2024}"
    by (auto simp: rows_two_years_def bill_row_def derived_row_simps ymd_def)
  from available_years_ascending_distinct [OF loaded dated] years
  obtain ys where ys: "available_years ?df = map Some ys" "sorted ys" "distinct ys"
    "set ys = {2023, 2024}"
    by auto
  have "ys = [2023, 2024]"
  proof -
    have "sorted_list_of_set (set ys) = ys"
      using ys(2,3) by (simp add: sorted_list_of_set.idem_if_sorted_distinct)
    then show ?thesis by (simp add: ys(4))
  qed
  with ys(1) loaded show ?thesis by simp
qed

section \<open>The rows and totals of one year\<close>

lemma sum_list_mset_eq:
  fixes xs :: "64 word list"
  shows "mset xs = mset ys \<Longrightarrow> sum_list xs = sum_list ys"
  by (metis sum_mset_sum_list)

lemma column_sum_mset:
  assumes "mset xs = mset ys"
  shows "column_sum column xs = column_sum column ys"
proof -
  from assms have "mset (map int64_of xs) = mset (map int64_of ys)" by simp
  then have "sum_list (map int64_of xs) = sum_list (map int64_of ys)"
    by (rule sum_list_mset_eq)
  moreover from assms have "mset (map float_of xs) = mset (map float_of ys)" by simp
  then have "pd_sum (map float_of xs) = pd_sum (map float_of ys)" by (rule pd_sum_mset)
  ultimately show ?thesis by (simp add: column_sum_def)
qed

lemma series_sum_mset:
  assumes "mset xs = mset ys"
  shows "series_sum column xs = series_sum column ys"
  using column_sum_mset [OF assms, of column] by (simp add: series_sum_def)

lemma sidebar_fields:
  "total_kwh (sidebar df (Some y)) = series_sum (map kWh df) (map kWh (group_of df y))"
  "total_cost (sidebar df (Some y)) = series_sum (map Total df) (map Total (group_of df y))"
  "avg_unit_cost (sidebar df (Some y)) = pd_mean (map Unit_Cost (group_of df y))"
  "num_bills (sidebar df (Some y)) = length (group_of df y)"
proof -
  have m: "mset (map f (year_df df (Some y))) = mset (map f (group_of df y))" for f :: "bill \<Rightarrow> 'b"
    by (simp add: mset_year_df)
  show "total_kwh (sidebar df (Some y)) = series_sum (map kWh df) (map kWh (group_of df y))"
    by (simp add: sidebar_def Let_def series_sum_mset [OF m])
  show "total_cost (sidebar df (Some y)) = series_sum (map Total df) (map Total (group_of df y))"
    by (simp add: sidebar_def Let_def series_sum_mset [OF m])
  show "avg_unit_cost (sidebar df (Some y)) = pd_mean (map Unit_Cost (group_of df y))"
    by (simp add: sidebar_def Let_def pd_mean_mset [OF m])
  show "num_bills (sidebar df (Some y)) = length (group_of df y)"
    using mset_eq_length [OF mset_year_df [of df y]] by (simp add: sidebar_def Let_def)
qed

lemma pd_sum_present:
  "[x \<leftarrow> xs. x \<noteq> NaN] = map Fin ks \<Longrightarrow> pd_sum xs = Fin (sum_list ks)"
  by (simp add: pd_sum_def fold_fadd_Fin)

lemma column_sum_int:
  "all_int column \<Longrightarrow> column_sum column (map Int64 ws) = Int64 (sum_list ws)"
  by (simp add: column_sum_def comp_def)

lemma column_sum_float:
  "\<not> all_int column \<Longrightarrow> [x \<leftarrow> map float_of chosen. x \<noteq> NaN] = map Fin ks
     \<Longrightarrow> column_sum column chosen = Number (Fin (sum_list ks))"
  by (simp add: column_sum_def pd_sum_present)

lemma word_of_int_sum_list:
  "word_of_int (sum_list (map sint ws)) = (sum_list ws :: 64 word)"
  by (induction ws) simp_all

lemma sint_sum_list:
  fixes ws :: "64 word list"
  shows "sint (sum_list ws) = (sum_list (map sint ws) + 2 ^ 63) mod 2 ^ 64 - 2 ^ 63"
proof -
  have "sint (sum_list ws) = sint (word_of_int (sum_list (map sint ws)) :: 64 word)"
    by (simp only: word_of_int_sum_list)
  also have "\<dots> = (sum_list (map sint ws) + 2 ^ 63) mod 2 ^ 64 - 2 ^ 63"
    by (simp add: int_word_sint)
  finally show ?thesis .
qed

lemma in_range_mod:
  fixes s :: int
  assumes "- (2 ^ 63) \<le> s" and "s < 2 ^ 63"
  shows "(s + 2 ^ 63) mod 2 ^ 64 - 2 ^ 63 = s"
proof -
  have "0 \<le> s + 2 ^ 63" using assms(1) by linarith
  moreover have "s + 2 ^ 63 < (2 ^ 64 :: int)" using assms(2) by simp
  ultimately have "(s + 2 ^ 63) mod 2 ^ 64 = s + 2 ^ 63"
    by (rule mod_pos_pos_trivial)
  then show ?thesis by linarith
qed

lemma year_df_empty: "group_of df y = [] \<Longrightarrow> year_df df (Some y) = []"
  using mset_year_df [of df y] by simp

lemma dated_rows_sorted:
  assumes "\<forall>r \<in> set rs. Date r \<noteq> None"
  shows "\<exists>tss. map Date (sort_values_Date rs) = map Some tss \<and> sorted (map chrono tss)"
proof -
  from assms have none: "[r \<leftarrow> rs. Date r = None] = []"
    by (simp add: filter_empty_conv)
  from assms have some: "[r \<leftarrow> rs. Date r \<noteq> None] = rs"
    by (simp add: filter_id_conv)
  have sv: "sort_values_Date rs = sort_key date_key rs"
    by (simp only: sort_values_Date_def none some append_Nil2)
  from assms have "None \<notin> set (map Date (sort_key date_key rs))" by auto
  then obtain tss where tss: "map Date (sort_key date_key rs) = map Some tss"
    using all_Some_list by blast
  have "map date_key (sort_key date_key rs)
      = map (\<lambda>d. case d of None \<Rightarrow> (0, 0, 0, 0) | Some t \<Rightarrow> chrono t)
          (map Date (sort_key date_key rs))"
    by (simp add: date_key_def)
  also have "\<dots> = map chrono tss"
    by (simp add: tss)
  finally have "map chrono tss = map date_key (sort_key date_key rs)" by simp
  then have "sorted (map chrono tss)" by simp
  with tss sv show ?thesis by auto
qed

section \<open>The rows of the selected year (claim C5)\<close>

text \<open>
  Claim C5: for every loaded frame and every year \<open>y\<close>, the rows selected for \<open>y\<close>
  (lines 66 and 67) are exactly the rows of the frame whose year is \<open>y\<close>, each as often
  as in the frame, every one has a date, and they are in ascending order of date,
  whatever the order of the rows in the input.
\<close>

theorem year_df_is_the_year_sorted:
  assumes "load_fpl_data lc response = Some df"
  shows "mset (year_df df (Some y)) = mset [r \<leftarrow> df. Year r = Some y]
     \<and> (\<exists>tss. map Date (year_df df (Some y)) = map Some tss \<and> sorted (map chrono tss))"
proof -
  have dated: "\<forall>r \<in> set [r \<leftarrow> df. py_eq (Year r) (Some y)]. Date r \<noteq> None"
  proof
    fix r assume "r \<in> set [r \<leftarrow> df. py_eq (Year r) (Some y)]"
    then have r: "r \<in> set df" and "Year r = Some y" by (simp_all add: py_eq_Some)
    with loaded_row(2) [OF assms r] show "Date r \<noteq> None" by (cases "Date r") auto
  qed
  have "mset (year_df df (Some y)) = mset [r \<leftarrow> df. Year r = Some y]"
    using mset_year_df [of df y] by (simp add: group_of_def)
  with dated_rows_sorted [OF dated] show ?thesis
    by (simp add: year_df_def)
qed

theorem year_df_is_the_year_sorted_witness:
  "load_fpl_data C_LC_TIME (table_of rows_two_years)
     = Some (map (derived_row C_LC_TIME) rows_two_years)
   \<and> map Date (year_df (map (derived_row C_LC_TIME) rows_two_years) (Some 2024))
     = [Some (ymd 2024 January 15), Some (ymd 2024 February 15)]
   \<and> mset (year_df (map (derived_row C_LC_TIME) rows_two_years) (Some 2024))
     = {#derived_row C_LC_TIME (rows_two_years ! 0), derived_row C_LC_TIME (rows_two_years ! 2)#}"
proof -
  let ?df = "map (derived_row C_LC_TIME) rows_two_years"
  have loaded: "load_fpl_data C_LC_TIME (table_of rows_two_years) = Some ?df"
    by (rule load_rows_two_years)
  have rows: "[r \<leftarrow> ?df. Year r = Some 2024]
      = [derived_row C_LC_TIME (rows_two_years ! 0), derived_row C_LC_TIME (rows_two_years ! 2)]"
    by (simp add: rows_two_years_def bill_row_def derived_row_simps ymd_def)
  have dates: "map Date (year_df ?df (Some 2024))
      = [Some (ymd 2024 January 15), Some (ymd 2024 February 15)]"
    by (simp add: year_df_def py_eq_Some rows sort_values_Date_def date_key_def chrono_def
        rows_two_years_def bill_row_def derived_row_simps ymd_def)
  from year_df_is_the_year_sorted [OF loaded, of 2024] rows dates loaded
  show ?thesis by simp
qed

section \<open>The totals of the selected year (claim C6)\<close>

lemma load_rows_huge:
  "load_fpl_data lc (table_of rows_huge) = Some (map (derived_row lc) rows_huge)"
  by (rule load_table_of [OF _ text_division_numeric]) (simp_all add: rows_huge_def bill_row_def)

lemma sidebar_A:
  "sidebar (map (derived_row C_LC_TIME) rows_A) (Some 2024)
     = \<lparr>total_kwh = Some (Int64 1100), total_cost = Some (Number (Fin 165)),
        avg_unit_cost = Fin 0.15, num_bills = 2\<rparr>"
  by (simp add: sidebar_def year_df_def py_eq_Some sort_values_Date_def date_key_def chrono_def
      rows_A_def bill_row_def derived_row_simps ymd_def series_sum_def column_sum_def
      all_int_def has_text_def pd_sum_def pd_mean_def)

lemma int_total:
  assumes "\<not> has_text column" and "all_int column \<and> chosen = map Int64 ws"
  shows "\<exists>w. series_sum column chosen = Some (Int64 w)
      \<and> sint w = wrap_int64 (sum_list (map sint ws))
      \<and> (- (2 ^ 63) \<le> sum_list (map sint ws) \<and> sum_list (map sint ws) < 2 ^ 63
            \<longrightarrow> sint w = sum_list (map sint ws))"
proof -
  have "series_sum column chosen = Some (Int64 (sum_list ws))"
    using assms by (simp add: series_sum_def column_sum_int)
  moreover have "sint (sum_list ws) = wrap_int64 (sum_list (map sint ws))"
    by (simp only: sint_sum_list wrap_int64_def)
  moreover have "sint (sum_list ws) = sum_list (map sint ws)"
    if "- (2 ^ 63) \<le> sum_list (map sint ws) \<and> sum_list (map sint ws) < 2 ^ 63"
    using that by (simp only: sint_sum_list in_range_mod)
  ultimately show ?thesis by blast
qed

lemma float_total:
  assumes "\<not> has_text column"
    and "\<not> all_int column \<and> [x \<leftarrow> map float_of chosen. x \<noteq> NaN] = map Fin ks"
  shows "series_sum column chosen = Some (Number (Fin (sum_list ks)))"
proof -
  from assms(2) have "column_sum column chosen = Number (Fin (sum_list ks))"
    by (intro column_sum_float) blast+
  with assms(1) show ?thesis by (simp add: series_sum_def)
qed

lemma empty_total:
  assumes "\<not> has_text column"
  shows "map_option float_of (series_sum column []) = Some (Fin 0)"
  using assms by (simp add: series_sum_def column_sum_def pd_sum_def)

text \<open>
  Claim C6: for every loaded frame and every year \<open>y\<close>, with or without bills, the
  number of bills in the sidebar is the number of rows of the frame whose year is \<open>y\<close>,
  and the two totals are sums over exactly these rows. When the column holds 64-bit
  integers, the total is the 64-bit sum of these rows: the sum of the integers wrapped
  into the range of \<^verbatim>\<open>int64\<close>, hence the sum itself as long as it lies between
  \<open>- 2\<^sup>6\<^sup>3\<close> and \<open>2\<^sup>6\<^sup>3 - 1\<close>. When the column holds floats, the total is the sum of the
  values of these rows that are present, as far as these are finite and floats are read
  as real numbers. A year without rows gives no row, both totals 0, no bill, and the
  average NaN, without an error. In Scenario A the sidebar shows 1100 kWh, 165.00, the
  average 0.15 and 2 bills.
\<close>

theorem sidebar_totals_of_the_year:
  assumes "load_fpl_data lc response = Some df"
  shows "(let records = [r \<leftarrow> df. Year r = Some y]; s = sidebar df (Some y) in
      num_bills s = length records
    \<and> (\<forall>ws. all_int (map kWh df) \<and> map kWh records = map Int64 ws \<longrightarrow>
          (\<exists>w. total_kwh s = Some (Int64 w) \<and> sint w = wrap_int64 (sum_list (map sint ws))
             \<and> (- (2 ^ 63) \<le> sum_list (map sint ws) \<and> sum_list (map sint ws) < 2 ^ 63
                   \<longrightarrow> sint w = sum_list (map sint ws))))
    \<and> (\<forall>ks. \<not> all_int (map kWh df)
            \<and> [x \<leftarrow> map float_of (map kWh records). x \<noteq> NaN] = map Fin ks
          \<longrightarrow> total_kwh s = Some (Number (Fin (sum_list ks))))
    \<and> (\<forall>ws. all_int (map Total df) \<and> map Total records = map Int64 ws \<longrightarrow>
          (\<exists>w. total_cost s = Some (Int64 w) \<and> sint w = wrap_int64 (sum_list (map sint ws))
             \<and> (- (2 ^ 63) \<le> sum_list (map sint ws) \<and> sum_list (map sint ws) < 2 ^ 63
                   \<longrightarrow> sint w = sum_list (map sint ws))))
    \<and> (\<forall>ts. \<not> all_int (map Total df)
            \<and> [x \<leftarrow> map float_of (map Total records). x \<noteq> NaN] = map Fin ts
          \<longrightarrow> total_cost s = Some (Number (Fin (sum_list ts))))
    \<and> (records = [] \<longrightarrow> year_df df (Some y) = []
          \<and> map_option float_of (total_kwh s) = Some (Fin 0)
          \<and> map_option float_of (total_cost s) = Some (Fin 0)
          \<and> avg_unit_cost s = NaN \<and> num_bills s = 0))
   \<and> map_option (\<lambda>df. sidebar df (Some 2024)) (load_fpl_data C_LC_TIME (table_of rows_A))
       = Some \<lparr>total_kwh = Some (Int64 1100), total_cost = Some (Number (Fin 165)),
               avg_unit_cost = Fin 0.15, num_bills = 2\<rparr>"
proof -
  let ?records = "[r \<leftarrow> df. Year r = Some y]"
  let ?s = "sidebar df (Some y)"
  note numeric = loaded_numeric [OF assms]
  note fields = sidebar_fields [of df y, unfolded group_of_def]
  have count: "num_bills ?s = length ?records"
    by (simp only: fields)
  have int_kwh: "\<exists>w. total_kwh ?s = Some (Int64 w) \<and> sint w = wrap_int64 (sum_list (map sint ws))
             \<and> (- (2 ^ 63) \<le> sum_list (map sint ws) \<and> sum_list (map sint ws) < 2 ^ 63
                   \<longrightarrow> sint w = sum_list (map sint ws))"
    if h: "all_int (map kWh df) \<and> map kWh ?records = map Int64 ws" for ws
    unfolding fields by (rule int_total [OF numeric(1) h])
  have int_cost: "\<exists>w. total_cost ?s = Some (Int64 w) \<and> sint w = wrap_int64 (sum_list (map sint ws))
             \<and> (- (2 ^ 63) \<le> sum_list (map sint ws) \<and> sum_list (map sint ws) < 2 ^ 63
                   \<longrightarrow> sint w = sum_list (map sint ws))"
    if h: "all_int (map Total df) \<and> map Total ?records = map Int64 ws" for ws
    unfolding fields by (rule int_total [OF numeric(2) h])
  have float_kwh: "total_kwh ?s = Some (Number (Fin (sum_list ks)))"
    if h: "\<not> all_int (map kWh df)
        \<and> [x \<leftarrow> map float_of (map kWh ?records). x \<noteq> NaN] = map Fin ks" for ks
    unfolding fields by (rule float_total [OF numeric(1) h])
  have float_cost: "total_cost ?s = Some (Number (Fin (sum_list ts)))"
    if h: "\<not> all_int (map Total df)
        \<and> [x \<leftarrow> map float_of (map Total ?records). x \<noteq> NaN] = map Fin ts" for ts
    unfolding fields by (rule float_total [OF numeric(2) h])
  have none: "year_df df (Some y) = []
          \<and> map_option float_of (total_kwh ?s) = Some (Fin 0)
          \<and> map_option float_of (total_cost ?s) = Some (Fin 0)
          \<and> avg_unit_cost ?s = NaN \<and> num_bills ?s = 0"
    if h: "?records = []"
  proof -
    from h have "year_df df (Some y) = []"
      by (simp add: year_df_empty group_of_def)
    moreover have "map_option float_of (total_kwh ?s) = Some (Fin 0)"
      "map_option float_of (total_cost ?s) = Some (Fin 0)"
      using empty_total [OF numeric(1)] empty_total [OF numeric(2)]
      by (simp_all only: fields h list.map)
    moreover have "avg_unit_cost ?s = NaN" "num_bills ?s = 0"
      by (simp_all add: fields h pd_mean_def)
    ultimately show ?thesis by simp
  qed
  have scenario: "map_option (\<lambda>df. sidebar df (Some 2024))
        (load_fpl_data C_LC_TIME (table_of rows_A))
      = Some \<lparr>total_kwh = Some (Int64 1100), total_cost = Some (Number (Fin 165)),
               avg_unit_cost = Fin 0.15, num_bills = 2\<rparr>"
    by (simp only: load_rows_A option.map sidebar_A)
  from count int_kwh float_kwh int_cost float_cost none scenario show ?thesis
    unfolding Let_def by blast
qed

text \<open>
  Claim C6 calls the total the sum of the kWh values of the year. An integer column is
  summed in 64 bits: two bills of 9223372036854775807 kWh and of 1 kWh, whose sum is
  9223372036854775808, give the total -9223372036854775808.
\<close>

theorem total_kwh_wraps_at_int64:
  "map_option (\<lambda>df. map_option float_of (total_kwh (sidebar df (Some 2024))))
      (load_fpl_data C_LC_TIME (table_of rows_huge)) = Some (Some (Fin (- 9223372036854775808)))
   \<and> sum_list (map (\<lambda>r. sint (int64_of (kWh_field r))) rows_huge) = 9223372036854775808"
  unfolding load_rows_huge
  by (simp add: sidebar_def year_df_def py_eq_Some sort_values_Date_def date_key_def chrono_def
      rows_huge_def bill_row_def derived_row_simps ymd_def series_sum_def column_sum_def
      all_int_def has_text_def)

theorem sidebar_totals_of_the_year_witness:
  "load_fpl_data C_LC_TIME (table_of rows_two_years)
     = Some (map (derived_row C_LC_TIME) rows_two_years)
   \<and> (\<exists>w. total_kwh (sidebar (map (derived_row C_LC_TIME) rows_two_years) (Some 2024))
            = Some (Int64 w) \<and> sint w = 1100)
   \<and> total_cost (sidebar (map (derived_row C_LC_TIME) rows_two_years) (Some 2024))
       = Some (Number (Fin 165))
   \<and> num_bills (sidebar (map (derived_row C_LC_TIME) rows_two_years) (Some 2024)) = 2
   \<and> year_df (map (derived_row C_LC_TIME) rows_two_years) (Some 2025) = []
   \<and> map_option float_of
        (total_kwh (sidebar (map (derived_row C_LC_TIME) rows_two_years) (Some 2025)))
       = Some (Fin 0)
   \<and> map_option float_of
        (total_cost (sidebar (map (derived_row C_LC_TIME) rows_two_years) (Some 2025)))
       = Some (Fin 0)
   \<and> avg_unit_cost (sidebar (map (derived_row C_LC_TIME) rows_two_years) (Some 2025)) = NaN
   \<and> num_bills (sidebar (map (derived_row C_LC_TIME) rows_two_years) (Some 2025)) = 0"
proof -
  let ?df = "map (derived_row C_LC_TIME) rows_two_years"
  have loaded: "load_fpl_data C_LC_TIME (table_of rows_two_years) = Some ?df"
    by (rule load_rows_two_years)
  have ints: "all_int (map kWh ?df)" and floats: "\<not> all_int (map Total ?df)"
    by (simp_all add: all_int_def rows_two_years_def bill_row_def derived_row_simps)
  have r24: "[r \<leftarrow> ?df. Year r = Some 2024]
      = [derived_row C_LC_TIME (rows_two_years ! 0), derived_row C_LC_TIME (rows_two_years ! 2)]"
    and r25: "[r \<leftarrow> ?df. Year r = Some 2025] = []"
    by (simp_all add: rows_two_years_def bill_row_def derived_row_simps ymd_def)
  have k: "map kWh [r \<leftarrow> ?df. Year r = Some 2024] = map Int64 [600, 500]"
    and t: "[x \<leftarrow> map float_of (map Total [r \<leftarrow> ?df. Year r = Some 2024]). x \<noteq> NaN]
        = map Fin [90, 75]"
    by (simp_all add: r24) (simp_all add: rows_two_years_def bill_row_def derived_row_simps)
  note year_2024 = sidebar_totals_of_the_year [OF loaded, where y = 2024, unfolded Let_def]
  note year_2025 = sidebar_totals_of_the_year [OF loaded, where y = 2025, unfolded Let_def]
  from year_2024 ints k
  obtain w where "total_kwh (sidebar ?df (Some 2024)) = Some (Int64 w)"
    and "sint w = wrap_int64 (sum_list (map sint [600, 500 :: 64 word]))"
    by blast
  then have kwh: "\<exists>w. total_kwh (sidebar ?df (Some 2024)) = Some (Int64 w) \<and> sint w = 1100"
    by (simp add: wrap_int64_def)
  from year_2024 floats t
  have "total_cost (sidebar ?df (Some 2024)) = Some (Number (Fin (sum_list [90, 75])))"
    by blast
  then have cost: "total_cost (sidebar ?df (Some 2024)) = Some (Number (Fin 165))"
    by simp
  from year_2024 r24 have count: "num_bills (sidebar ?df (Some 2024)) = 2"
    by simp
  from year_2025 r25
  have empty: "year_df ?df (Some 2025) = []
      \<and> map_option float_of (total_kwh (sidebar ?df (Some 2025))) = Some (Fin 0)
      \<and> map_option float_of (total_cost (sidebar ?df (Some 2025))) = Some (Fin 0)
      \<and> avg_unit_cost (sidebar ?df (Some 2025)) = NaN
      \<and> num_bills (sidebar ?df (Some 2025)) = 0"
    by blast
  from loaded kwh cost count empty show ?thesis by blast
qed

section \<open>Means, and the table of the years\<close>

lemma fadd_NaN_right: "fadd x NaN = NaN"
  by (cases x) simp_all

lemma fold_fadd_NaN: "fold fadd xs NaN = NaN"
  by (induction xs) (simp_all add: fadd_NaN_right)

lemma fold_fadd_infinite:
  "fold fadd xs a =
     (if NaN \<in> set (a # xs) \<or> (PInf \<in> set (a # xs) \<and> NInf \<in> set (a # xs)) then NaN
      else if PInf \<in> set (a # xs) then PInf
      else if NInf \<in> set (a # xs) then NInf
      else fold fadd xs a)"
proof (induction xs arbitrary: a)
  case Nil
  show ?case by (cases a) simp_all
next
  case (Cons x xs)
  show ?case
    by (subst fold_simps, subst Cons.IH) (cases x; cases a; simp)
qed

lemma pd_mean_nothing: "[u \<leftarrow> us. u \<noteq> NaN] = [] \<Longrightarrow> pd_mean us = NaN"
  by (simp add: pd_mean_def)

lemma pd_mean_finite:
  assumes "[u \<leftarrow> us. u \<noteq> NaN] = map Fin vs" and "vs \<noteq> []"
  shows "pd_mean us = Fin (sum_list vs / real (length vs))"
proof -
  have "pd_sum us = Fin (sum_list vs)"
    by (simp add: pd_sum_def assms(1) fold_fadd_Fin)
  moreover have "length [u \<leftarrow> us. u \<noteq> NaN] = length vs"
    by (simp add: assms(1))
  ultimately show ?thesis
    using assms(2) by (simp add: pd_mean_def)
qed

lemma pd_sum_infinite:
  "PInf \<in> set us \<Longrightarrow> NInf \<notin> set us \<Longrightarrow> pd_sum us = PInf"
  "NInf \<in> set us \<Longrightarrow> PInf \<notin> set us \<Longrightarrow> pd_sum us = NInf"
  "PInf \<in> set us \<Longrightarrow> NInf \<in> set us \<Longrightarrow> pd_sum us = NaN"
  unfolding pd_sum_def by (subst fold_fadd_infinite, simp)+

lemma present_nonempty: "x \<in> set us \<Longrightarrow> x \<noteq> NaN \<Longrightarrow> 0 < length [u \<leftarrow> us. u \<noteq> NaN]"
  by (induction us) auto

lemma pd_mean_infinite:
  "PInf \<in> set us \<Longrightarrow> NInf \<notin> set us \<Longrightarrow> pd_mean us = PInf"
  "NInf \<in> set us \<Longrightarrow> PInf \<notin> set us \<Longrightarrow> pd_mean us = NInf"
  "PInf \<in> set us \<Longrightarrow> NInf \<in> set us \<Longrightarrow> pd_mean us = NaN"
proof -
  show "PInf \<in> set us \<Longrightarrow> NInf \<notin> set us \<Longrightarrow> pd_mean us = PInf"
    using present_nonempty [of PInf us] by (simp add: pd_mean_def pd_sum_infinite)
  show "NInf \<in> set us \<Longrightarrow> PInf \<notin> set us \<Longrightarrow> pd_mean us = NInf"
    using present_nonempty [of NInf us] by (simp add: pd_mean_def pd_sum_infinite)
  show "PInf \<in> set us \<Longrightarrow> NInf \<in> set us \<Longrightarrow> pd_mean us = NaN"
    using present_nonempty [of PInf us] by (simp add: pd_mean_def pd_sum_infinite)
qed

lemma annual_summary_Some:
  "annual_summary df = Some tbl \<Longrightarrow> tbl = map (group_row df) (group_keys df)"
  by (auto simp: annual_summary_def Let_def split: if_splits)

lemma annual_summary_numeric:
  "\<not> has_text (map kWh df) \<Longrightarrow> \<not> has_text (map Total df)
     \<Longrightarrow> annual_summary df = Some (map (group_row df) (group_keys df))"
  by (simp add: annual_summary_def)

lemma comparison_Some:
  "comparison df sel = Some tbl \<Longrightarrow> annual_summary df = Some tbl"
  by (simp add: comparison_def split: if_splits)

lemma row_Year_group_row: "map row_Year (map (group_row df) ys) = ys"
  by (induction ys) (simp_all add: group_row_def)

lemma set_group_keys: "set (group_keys df) = {y. \<exists>r \<in> set df. Year r = Some y}"
  by (auto simp: group_keys_def split: option.splits)

lemma load_rows_B_after_2023:
  "load_fpl_data lc (table_of rows_B_after_2023)
     = Some (map (derived_row lc) rows_B_after_2023)"
  by (rule load_table_of [OF _ text_division_numeric])
     (simp_all add: rows_B_after_2023_def bill_row_def)

lemma load_rows_nothing_billed:
  "load_fpl_data lc (table_of rows_nothing_billed)
     = Some (map (derived_row lc) rows_nothing_billed)"
  by (rule load_table_of [OF _ text_division_numeric])
     (simp_all add: rows_nothing_billed_def bill_row_def)

lemma load_rows_charge_and_credit:
  "load_fpl_data lc (table_of rows_charge_and_credit)
     = Some (map (derived_row lc) rows_charge_and_credit)"
  by (rule load_table_of [OF _ text_division_numeric])
     (simp_all add: rows_charge_and_credit_def bill_row_def)

lemma load_rows_credit_after_2023:
  "load_fpl_data lc (table_of rows_credit_after_2023)
     = Some (map (derived_row lc) rows_credit_after_2023)"
  by (rule load_table_of [OF _ text_division_numeric])
     (simp_all add: rows_credit_after_2023_def bill_row_def)

section \<open>The average unit cost (claim C2)\<close>

text \<open>
  Claim C2 says that the average unit cost of a group leaves out the records whose unit
  cost is undefined (the bills of no energy) and is itself undefined when every record
  of the group is left out, for the selected year as for every row of the annual
  table. The script takes pandas' mean of the column (lines 73 and 168), which leaves
  out NaN and nothing else. What holds, for the selected year \<open>y\<close> and for the row of
  \<open>y\<close> in the annual table alike, whenever the script computes that table: the average
  is NaN when no unit cost of the year differs from NaN; it is the arithmetic mean of
  the unit costs other than NaN when these are finite; a unit cost of plus infinity (a
  bill of no energy and a positive amount) is counted and makes the average plus
  infinity when minus infinity does not occur; a unit cost of minus infinity (a bill of
  no energy and a negative amount) makes it minus infinity when plus infinity does not
  occur; and when both infinities occur the average is NaN.
\<close>

theorem avg_unit_cost_is_mean_of_not_NaN:
  "(let costs = map Unit_Cost [r \<leftarrow> df. Year r = Some y];
        present = [u \<leftarrow> costs. u \<noteq> NaN];
        avg = avg_unit_cost (sidebar df (Some y))
    in (present = [] \<longrightarrow> avg = NaN)
     \<and> (\<forall>vs. present = map Fin vs \<and> vs \<noteq> [] \<longrightarrow> avg = Fin (sum_list vs / real (length vs)))
     \<and> (PInf \<in> set costs \<and> NInf \<notin> set costs \<longrightarrow> avg = PInf)
     \<and> (NInf \<in> set costs \<and> PInf \<notin> set costs \<longrightarrow> avg = NInf)
     \<and> (PInf \<in> set costs \<and> NInf \<in> set costs \<longrightarrow> avg = NaN)
     \<and> (\<forall>tbl row. annual_summary df = Some tbl \<and> row \<in> set tbl \<and> row_Year row = y
           \<longrightarrow> row_Unit_Cost row = avg)
     \<and> (\<forall>sel tbl row. comparison df sel = Some tbl \<and> row \<in> set tbl \<and> row_Year row = y
           \<longrightarrow> row_Unit_Cost row = avg))"
proof -
  let ?costs = "map Unit_Cost [r \<leftarrow> df. Year r = Some y]"
  let ?avg = "avg_unit_cost (sidebar df (Some y))"
  have avg: "?avg = pd_mean ?costs"
    by (simp add: sidebar_fields group_of_def)
  have rows: "row_Unit_Cost row = ?avg"
    if "annual_summary df = Some tbl" "row \<in> set tbl" "row_Year row = y" for tbl row
  proof -
    from that(1,2) obtain y' where "row = group_row df y'"
      by (auto dest!: annual_summary_Some)
    with that(3) have "row = group_row df y" by (simp add: group_row_def)
    then show ?thesis by (simp add: avg group_row_def group_of_def)
  qed
  have shown: "row_Unit_Cost row = ?avg"
    if "comparison df sel = Some tbl" "row \<in> set tbl" "row_Year row = y" for sel tbl row
    using rows [OF comparison_Some [OF that(1)] that(2,3)] .
  have none_present: "[u \<leftarrow> ?costs. u \<noteq> NaN] = [] \<longrightarrow> ?avg = NaN"
    unfolding avg by (blast intro: pd_mean_nothing)
  have all_finite: "[u \<leftarrow> ?costs. u \<noteq> NaN] = map Fin vs \<and> vs \<noteq> []
      \<longrightarrow> ?avg = Fin (sum_list vs / real (length vs))" for vs
    unfolding avg by (blast intro: pd_mean_finite)
  have some_infinite: "PInf \<in> set ?costs \<and> NInf \<notin> set ?costs \<longrightarrow> ?avg = PInf"
    "NInf \<in> set ?costs \<and> PInf \<notin> set ?costs \<longrightarrow> ?avg = NInf"
    "PInf \<in> set ?costs \<and> NInf \<in> set ?costs \<longrightarrow> ?avg = NaN"
    unfolding avg by (blast intro: pd_mean_infinite)+
  from none_present all_finite some_infinite rows shown show ?thesis
    unfolding Let_def by blast
qed

text \<open>
  Scenario B after a bill of 2023: of the two bills of 2024 one has kWh 0 and Total
  10.00. The mean over the one defined unit cost of 2024 would be 0.15; the sidebar and
  the row of 2024 in the annual table both show plus infinity.
\<close>

theorem avg_unit_cost_counts_infinite_cost:
  "map_option (map Unit_Cost) (load_fpl_data C_LC_TIME (table_of rows_B_after_2023))
      = Some [Fin 0.125, Fin 0.15, PInf]
   \<and> map_option (\<lambda>df. avg_unit_cost (sidebar df (Some 2024)))
      (load_fpl_data C_LC_TIME (table_of rows_B_after_2023)) = Some PInf
   \<and> map_option (\<lambda>df. map_option (map row_Unit_Cost) (comparison df (Some 2024)))
      (load_fpl_data C_LC_TIME (table_of rows_B_after_2023)) = Some (Some [Fin 0.125, PInf])"
  unfolding load_rows_B_after_2023
  by (simp add: sidebar_def year_df_def py_eq_Some sort_values_Date_def date_key_def chrono_def
      rows_B_after_2023_def bill_row_def derived_row_simps ymd_def pd_sum_def pd_mean_def
      comparison_def comparison_shown_def available_years_def py_sorted_def unique_def
      py_lt_def annual_summary_def has_text_def group_keys_def group_row_def group_of_def)

theorem avg_unit_cost_is_mean_of_not_NaN_witness:
  "avg_unit_cost (sidebar (map (derived_row C_LC_TIME) rows_nothing_billed) (Some 2024))
     = Fin (1 / 5)
   \<and> avg_unit_cost (sidebar (map (derived_row C_LC_TIME) rows_nothing_billed) (Some 2023)) = NaN
   \<and> avg_unit_cost (sidebar (map (derived_row C_LC_TIME) rows_B_after_2023) (Some 2024)) = PInf
   \<and> avg_unit_cost (sidebar (map (derived_row C_LC_TIME) rows_credit_after_2023) (Some 2024))
     = NInf
   \<and> avg_unit_cost (sidebar (map (derived_row C_LC_TIME) rows_charge_and_credit) (Some 2024))
     = NaN
   \<and> comparison (map (derived_row C_LC_TIME) rows_charge_and_credit) (Some 2024)
     = Some [\<lparr>row_Year = 2023, row_kWh = Int64 400, row_Total = Number (Fin 50),
              row_Unit_Cost = Fin (1 / 8)\<rparr>,
             \<lparr>row_Year = 2024, row_kWh = Int64 0, row_Total = Number (Fin 5),
              row_Unit_Cost = NaN\<rparr>]"
proof -
  let ?df = "map (derived_row C_LC_TIME) rows_nothing_billed"
  let ?dfB = "map (derived_row C_LC_TIME) rows_B_after_2023"
  let ?dfC = "map (derived_row C_LC_TIME) rows_credit_after_2023"
  let ?dfX = "map (derived_row C_LC_TIME) rows_charge_and_credit"
  let ?row23 = "\<lparr>row_Year = 2023, row_kWh = Int64 400, row_Total = Number (Fin 50),
      row_Unit_Cost = pd_mean [Fin (1 / 8)]\<rparr>"
  let ?row24 = "\<lparr>row_Year = 2024, row_kWh = Int64 0, row_Total = Number (Fin 5),
      row_Unit_Cost = pd_mean [PInf, NInf]\<rparr>"
  have c24: "map Unit_Cost [r \<leftarrow> ?df. Year r = Some 2024] = [Fin (3 / 20), NaN, Fin (1 / 4)]"
    and c23: "map Unit_Cost [r \<leftarrow> ?df. Year r = Some 2023] = []"
    by (simp_all add: rows_nothing_billed_def bill_row_def derived_row_simps ymd_def)
  have cB: "map Unit_Cost [r \<leftarrow> ?dfB. Year r = Some 2024] = [Fin (3 / 20), PInf]"
    by (simp add: rows_B_after_2023_def bill_row_def derived_row_simps ymd_def)
  have cC: "map Unit_Cost [r \<leftarrow> ?dfC. Year r = Some 2024] = [Fin (3 / 20), NInf]"
    by (simp add: rows_credit_after_2023_def bill_row_def derived_row_simps ymd_def)
  have cX: "map Unit_Cost [r \<leftarrow> ?dfX. Year r = Some 2024] = [PInf, NInf]"
    and cX23: "map Unit_Cost [r \<leftarrow> ?dfX. Year r = Some 2023] = [Fin (1 / 8)]"
    by (simp_all add: rows_charge_and_credit_def bill_row_def derived_row_simps ymd_def)
  have tbl: "comparison ?dfX (Some 2024) = Some [?row23, ?row24]"
    by (simp add: comparison_def comparison_shown_def year_df_def py_eq_Some
        sort_values_Date_def date_key_def chrono_def available_years_def py_sorted_def
        unique_def py_lt_def annual_summary_def has_text_def group_keys_def group_row_def
        group_of_def column_sum_def all_int_def pd_sum_def
        rows_charge_and_credit_def bill_row_def derived_row_simps ymd_def)
  have present: "[u \<leftarrow> [Fin (3 / 20), NaN, Fin (1 / 4)]. u \<noteq> NaN] = map Fin [3 / 20, 1 / 4]"
    "[u \<leftarrow> [Fin (1 / 8)]. u \<noteq> NaN] = map Fin [1 / 8]"
    by simp_all
  note thm24 = avg_unit_cost_is_mean_of_not_NaN [where df = ?df and y = 2024,
      unfolded Let_def c24]
  from thm24 have "[u \<leftarrow> [Fin (3 / 20), NaN, Fin (1 / 4)]. u \<noteq> NaN] = map Fin vs \<Longrightarrow> vs \<noteq> []
      \<Longrightarrow> avg_unit_cost (sidebar ?df (Some 2024)) = Fin (sum_list vs / real (length vs))" for vs
    by blast
  from this [OF present(1)] have a24: "avg_unit_cost (sidebar ?df (Some 2024)) = Fin (1 / 5)"
    by simp
  from avg_unit_cost_is_mean_of_not_NaN [where df = ?df and y = 2023, unfolded Let_def c23]
  have a23: "avg_unit_cost (sidebar ?df (Some 2023)) = NaN"
    by simp
  from avg_unit_cost_is_mean_of_not_NaN [where df = ?dfB and y = 2024, unfolded Let_def cB]
  have aB: "avg_unit_cost (sidebar ?dfB (Some 2024)) = PInf"
    by simp
  from avg_unit_cost_is_mean_of_not_NaN [where df = ?dfC and y = 2024, unfolded Let_def cC]
  have aC: "avg_unit_cost (sidebar ?dfC (Some 2024)) = NInf"
    by simp
  note thmX = avg_unit_cost_is_mean_of_not_NaN [where df = ?dfX and y = 2024,
      unfolded Let_def cX]
  from thmX have aX: "avg_unit_cost (sidebar ?dfX (Some 2024)) = NaN"
    by simp
  from thmX have "comparison ?dfX sel = Some t \<Longrightarrow> row \<in> set t \<Longrightarrow> row_Year row = 2024
      \<Longrightarrow> row_Unit_Cost row = avg_unit_cost (sidebar ?dfX (Some 2024))" for sel t row
    by blast
  from this [OF tbl, of ?row24] aX have u24: "row_Unit_Cost ?row24 = NaN"
    by simp
  note thmX23 = avg_unit_cost_is_mean_of_not_NaN [where df = ?dfX and y = 2023,
      unfolded Let_def cX23]
  from thmX23 have "[u \<leftarrow> [Fin (1 / 8)]. u \<noteq> NaN] = map Fin vs \<Longrightarrow> vs \<noteq> []
      \<Longrightarrow> avg_unit_cost (sidebar ?dfX (Some 2023)) = Fin (sum_list vs / real (length vs))" for vs
    by blast
  from this [OF present(2)] have aX23: "avg_unit_cost (sidebar ?dfX (Some 2023)) = Fin (1 / 8)"
    by simp
  from thmX23 have "comparison ?dfX sel = Some t \<Longrightarrow> row \<in> set t \<Longrightarrow> row_Year row = 2023
      \<Longrightarrow> row_Unit_Cost row = avg_unit_cost (sidebar ?dfX (Some 2023))" for sel t row
    by blast
  from this [OF tbl, of ?row23] aX23 have u23: "row_Unit_Cost ?row23 = Fin (1 / 8)"
    by simp
  from u23 u24 tbl have t: "comparison ?dfX (Some 2024)
      = Some [\<lparr>row_Year = 2023, row_kWh = Int64 400, row_Total = Number (Fin 50),
                row_Unit_Cost = Fin (1 / 8)\<rparr>,
              \<lparr>row_Year = 2024, row_kWh = Int64 0, row_Total = Number (Fin 5),
                row_Unit_Cost = NaN\<rparr>]"
    by simp
  from a24 a23 aB aC aX t show ?thesis by simp
qed

end
